theory Spec2Isabelle
  imports Main "HOL-Library.Word"
begin

section \<open>The JSON value of yocto\_commonio.h\<close>

text \<open>
  \<^verbatim>\<open>enum struct json_type\<close>: the nine kinds, in the order of the source.
\<close>

datatype json_type =
  null | integer | unsigned_k | real | boolean | string_k | array | object | binary

text \<open>
  \<^verbatim>\<open>struct json_error : std::runtime_error\<close>: the exception thrown by the checked
  accessors of \<^verbatim>\<open>json_value\<close>. A member function that can throw returns
  \<open>json_error + 'a\<close>, with \<open>Inl\<close> for the throw.
\<close>

datatype json_error = json_error string

text \<open>
  \<^verbatim>\<open>struct json_value\<close> is a tag \<^verbatim>\<open>_type\<close> and a union of payloads; the heap
  payloads (\<^verbatim>\<open>string*\<close>, \<^verbatim>\<open>json_array*\<close>, \<^verbatim>\<open>json_object*\<close>,
  \<^verbatim>\<open>json_binary*\<close>) are owned by the node. The model is the sum type of tag and
  active payload. \<^verbatim>\<open>int64_t\<close> and \<^verbatim>\<open>uint64_t\<close> are 64-bit words (read with
  \<open>sint\<close> and \<open>unat\<close>), \<^verbatim>\<open>double\<close> is the type parameter \<open>'d\<close> (only its zero and
  the casts into it are used), \<^verbatim>\<open>json_array\<close> is a list of values,
  \<^verbatim>\<open>json_object\<close> a list of key and value pairs, \<^verbatim>\<open>json_binary\<close> a list of
  bytes. The selectors \<open>payload_integer\<close>, ... read the union members \<^verbatim>\<open>_integer\<close>,
  ...; the source reads a member only under the matching tag.
\<close>

datatype 'd json_value =
    JNull
  | JInteger (payload_integer: "64 word")
  | JUnsigned (payload_unsigned: "64 word")
  | JReal (payload_real: 'd)
  | JBoolean (payload_boolean: bool)
  | JString (payload_string: string)
  | JArray (payload_array: "'d json_value list")
  | JObject (payload_object: "(string \<times> 'd json_value) list")
  | JBinary (payload_binary: "8 word list")

text \<open>\<^verbatim>\<open>json_value::type()\<close> and the nine \<^verbatim>\<open>json_value::is_*()\<close> members.\<close>

fun json_value_type :: "'d json_value \<Rightarrow> json_type" where
  "json_value_type JNull = null"
| "json_value_type (JInteger _) = integer"
| "json_value_type (JUnsigned _) = unsigned_k"
| "json_value_type (JReal _) = real"
| "json_value_type (JBoolean _) = boolean"
| "json_value_type (JString _) = string_k"
| "json_value_type (JArray _) = array"
| "json_value_type (JObject _) = object"
| "json_value_type (JBinary _) = binary"

definition json_value_is_null :: "'d json_value \<Rightarrow> bool" where
  "json_value_is_null v = (json_value_type v = null)"

definition json_value_is_integer :: "'d json_value \<Rightarrow> bool" where
  "json_value_is_integer v = (json_value_type v = integer)"

definition json_value_is_unsigned :: "'d json_value \<Rightarrow> bool" where
  "json_value_is_unsigned v = (json_value_type v = unsigned_k)"

definition json_value_is_real :: "'d json_value \<Rightarrow> bool" where
  "json_value_is_real v = (json_value_type v = real)"

definition json_value_is_bool :: "'d json_value \<Rightarrow> bool" where
  "json_value_is_bool v = (json_value_type v = boolean)"

definition json_value_is_string :: "'d json_value \<Rightarrow> bool" where
  "json_value_is_string v = (json_value_type v = string_k)"

definition json_value_is_array :: "'d json_value \<Rightarrow> bool" where
  "json_value_is_array v = (json_value_type v = array)"

definition json_value_is_object :: "'d json_value \<Rightarrow> bool" where
  "json_value_is_object v = (json_value_type v = object)"

definition json_value_is_binary :: "'d json_value \<Rightarrow> bool" where
  "json_value_is_binary v = (json_value_type v = binary)"

text \<open>
  The checked accessors: \<^verbatim>\<open>if (_type != json_type::k) throw json_error{"k expected"}\<close>,
  then the payload.
\<close>

definition json_value_get_integer :: "'d json_value \<Rightarrow> json_error + 64 word" where
  "json_value_get_integer v =
     (case v of JInteger i \<Rightarrow> Inr i | _ \<Rightarrow> Inl (json_error ''integer expected''))"

definition json_value_get_unsigned :: "'d json_value \<Rightarrow> json_error + 64 word" where
  "json_value_get_unsigned v =
     (case v of JUnsigned u \<Rightarrow> Inr u | _ \<Rightarrow> Inl (json_error ''unsigned expected''))"

definition json_value_get_real :: "'d json_value \<Rightarrow> json_error + 'd" where
  "json_value_get_real v =
     (case v of JReal r \<Rightarrow> Inr r | _ \<Rightarrow> Inl (json_error ''real expected''))"

definition json_value_get_boolean :: "'d json_value \<Rightarrow> json_error + bool" where
  "json_value_get_boolean v =
     (case v of JBoolean b \<Rightarrow> Inr b | _ \<Rightarrow> Inl (json_error ''boolean expected''))"

definition json_value_get_string :: "'d json_value \<Rightarrow> json_error + string" where
  "json_value_get_string v =
     (case v of JString s \<Rightarrow> Inr s | _ \<Rightarrow> Inl (json_error ''string expected''))"

definition json_value_get_array :: "'d json_value \<Rightarrow> json_error + 'd json_value list" where
  "json_value_get_array v =
     (case v of JArray a \<Rightarrow> Inr a | _ \<Rightarrow> Inl (json_error ''array expected''))"

definition json_value_get_object ::
  "'d json_value \<Rightarrow> json_error + (string \<times> 'd json_value) list" where
  "json_value_get_object v =
     (case v of JObject ob \<Rightarrow> Inr ob | _ \<Rightarrow> Inl (json_error ''object expected''))"

definition json_value_get_binary :: "'d json_value \<Rightarrow> json_error + 8 word list" where
  "json_value_get_binary v =
     (case v of JBinary b \<Rightarrow> Inr b | _ \<Rightarrow> Inl (json_error ''binary expected''))"

text \<open>
  \<^verbatim>\<open>std::vector::resize(n)\<close> and \<^verbatim>\<open>std::string::resize(n)\<close>: cut to \<open>n\<close> elements
  or fill up with the given element.
\<close>

definition vector_resize :: "'a list \<Rightarrow> nat \<Rightarrow> 'a \<Rightarrow> 'a list" where
  "vector_resize xs n x = take n xs @ replicate (n - length xs) x"

text \<open>
  Structure support of \<^verbatim>\<open>json_value\<close>: \<^verbatim>\<open>size\<close>, \<^verbatim>\<open>empty\<close>, \<^verbatim>\<open>resize\<close>,
  \<^verbatim>\<open>reserve\<close>. Each is a \<^verbatim>\<open>switch (_type)\<close> whose \<^verbatim>\<open>default\<close> throws
  \<^verbatim>\<open>json_error{"bad json type"}\<close>. The mutating members return the new node.
  \<^verbatim>\<open>reserve\<close> changes the capacity only, which the model does not hold.
\<close>

definition json_value_size :: "'d json_value \<Rightarrow> json_error + nat" where
  "json_value_size v =
     (case json_value_type v of
        string_k \<Rightarrow> map_sum id length (json_value_get_string v)
      | array \<Rightarrow> map_sum id length (json_value_get_array v)
      | object \<Rightarrow> map_sum id length (json_value_get_object v)
      | binary \<Rightarrow> map_sum id length (json_value_get_binary v)
      | _ \<Rightarrow> Inl (json_error ''bad json type''))"

definition json_value_empty :: "'d json_value \<Rightarrow> json_error + bool" where
  "json_value_empty v = map_sum id (\<lambda>n. n = 0) (json_value_size v)"

definition json_value_resize :: "'d json_value \<Rightarrow> nat \<Rightarrow> json_error + 'd json_value" where
  "json_value_resize v n =
     (case json_value_type v of
        string_k \<Rightarrow>
          map_sum id (\<lambda>s. JString (vector_resize s n (CHR 0x00))) (json_value_get_string v)
      | array \<Rightarrow> map_sum id (\<lambda>a. JArray (vector_resize a n JNull)) (json_value_get_array v)
      | binary \<Rightarrow> map_sum id (\<lambda>b. JBinary (vector_resize b n 0)) (json_value_get_binary v)
      | _ \<Rightarrow> Inl (json_error ''bad json type''))"

definition json_value_reserve :: "'d json_value \<Rightarrow> nat \<Rightarrow> json_error + 'd json_value" where
  "json_value_reserve v n =
     (case json_value_type v of
        string_k \<Rightarrow> map_sum id (\<lambda>s. JString s) (json_value_get_string v)
      | array \<Rightarrow> map_sum id (\<lambda>a. JArray a) (json_value_get_array v)
      | object \<Rightarrow> map_sum id (\<lambda>ob. JObject ob) (json_value_get_object v)
      | binary \<Rightarrow> map_sum id (\<lambda>b. JBinary b) (json_value_get_binary v)
      | _ \<Rightarrow> Inl (json_error ''bad json type''))"

text \<open>
  \<^verbatim>\<open>json_value::set_type\<close>: the first \<^verbatim>\<open>switch\<close> deletes the old heap payload (no
  trace in the model), then \<^verbatim>\<open>_type = type\<close> and the second \<^verbatim>\<open>switch\<close> installs
  the payload of the new kind.
\<close>

definition json_value_set_type :: "json_type \<Rightarrow> 'd::zero json_value \<Rightarrow> 'd json_value" where
  "json_value_set_type type v =
     (case type of
        null \<Rightarrow> JNull
      | integer \<Rightarrow> JInteger 0
      | unsigned_k \<Rightarrow> JUnsigned 0
      | real \<Rightarrow> JReal 0
      | boolean \<Rightarrow> JBoolean False
      | string_k \<Rightarrow> JString []
      | array \<Rightarrow> JArray []
      | object \<Rightarrow> JObject []
      | binary \<Rightarrow> JBinary [])"

text \<open>
  Object support. \<^verbatim>\<open>find\<close> walks the pairs in storage order and returns the address
  of the value of the first pair whose key matches, or \<^verbatim>\<open>nullptr\<close>: an address inside
  one object is the position of its pair. \<^verbatim>\<open>operator[](const string&)\<close> returns
  what \<^verbatim>\<open>find\<close> found, or appends the pair \<^verbatim>\<open>(key, json_value{})\<close> and returns its
  value; the model returns the node after the call and the position referred to.
\<close>

fun find_key :: "(string \<times> 'a) list \<Rightarrow> string \<Rightarrow> nat option" where
  "find_key [] key = None"
| "find_key ((k, v) # rest) key =
     (if k = key then Some 0 else map_option Suc (find_key rest key))"

definition json_value_find :: "'d json_value \<Rightarrow> string \<Rightarrow> json_error + nat option" where
  "json_value_find v key = map_sum id (\<lambda>ob. find_key ob key) (json_value_get_object v)"

definition json_value_contains :: "'d json_value \<Rightarrow> string \<Rightarrow> json_error + bool" where
  "json_value_contains v key = map_sum id (\<lambda>ptr. ptr \<noteq> None) (json_value_find v key)"

definition json_value_index_key ::
  "'d json_value \<Rightarrow> string \<Rightarrow> json_error + ('d json_value \<times> nat)" where
  "json_value_index_key v key =
     (case json_value_find v key of
        Inl e \<Rightarrow> Inl e
      | Inr (Some ptr) \<Rightarrow> Inr (v, ptr)
      | Inr None \<Rightarrow>
          map_sum id (\<lambda>ob. (JObject (ob @ [(key, JNull)]), length ob))
            (json_value_get_object v))"

text \<open>
  The converting constructors used by the assignments \<^verbatim>\<open>operator=(int32_t)\<close> and
  \<^verbatim>\<open>operator=(int64_t)\<close>: kind integer, the value widened with its sign.
\<close>

definition json_value_of_int64 :: "64 word \<Rightarrow> 'd json_value" where
  "json_value_of_int64 x = JInteger x"

definition json_value_of_int32 :: "32 word \<Rightarrow> 'd json_value" where
  "json_value_of_int32 x = JInteger (scast x)"

text \<open>
  The statement \<^verbatim>\<open>js[key] = x\<close>: \<^verbatim>\<open>operator[]\<close>, then the assignment (construct and
  swap) to the node it refers to.
\<close>

definition json_value_assign_key ::
  "'d json_value \<Rightarrow> string \<Rightarrow> 'd json_value \<Rightarrow> json_error + 'd json_value" where
  "json_value_assign_key v key x =
     (case json_value_index_key v key of
        Inl e \<Rightarrow> Inl e
      | Inr (v', ptr) \<Rightarrow>
          (case v' of
             JObject ob \<Rightarrow> Inr (JObject (ob[ptr := (fst (ob ! ptr), x)]))
           | _ \<Rightarrow> Inr v'))"

section \<open>Views: the store, pointers and the navigation functions\<close>

text \<open>
  A \<^verbatim>\<open>json_value*\<close> is the address of a node. Every node is either a
  \<^verbatim>\<open>json_value\<close> with storage of its own (a variable, addressed by a number) or an
  element of the array or object payload of its parent, so an address is the number of the
  owning variable and the positions to follow from it: position \<open>i\<close> of an array is its
  element \<open>i\<close>, position \<open>i\<close> of an object is the value of its pair \<open>i\<close>. Two
  pointers are equal exactly when they address the same node. The store holds the
  variables. \<^verbatim>\<open>nullptr\<close> is \<open>None\<close>.
\<close>

type_synonym json_ptr = "nat \<times> nat list"

type_synonym 'd json_store = "nat \<Rightarrow> 'd json_value option"

fun node_at :: "'d json_value \<Rightarrow> nat list \<Rightarrow> 'd json_value option" where
  "node_at v [] = Some v"
| "node_at (JArray xs) (i # p) = (if i < length xs then node_at (xs ! i) p else None)"
| "node_at (JObject kvs) (i # p) =
     (if i < length kvs then node_at (snd (kvs ! i)) p else None)"
| "node_at _ (i # p) = None"

fun replace_at :: "'d json_value \<Rightarrow> nat list \<Rightarrow> 'd json_value \<Rightarrow> 'd json_value" where
  "replace_at v [] x = x"
| "replace_at (JArray xs) (i # p) x =
     (if i < length xs then JArray (xs[i := replace_at (xs ! i) p x]) else JArray xs)"
| "replace_at (JObject kvs) (i # p) x =
     (if i < length kvs
      then JObject (kvs[i := (fst (kvs ! i), replace_at (snd (kvs ! i)) p x)])
      else JObject kvs)"
| "replace_at v (i # p) x = v"

definition deref :: "'d json_store \<Rightarrow> json_ptr \<Rightarrow> 'd json_value option" where
  "deref st p = (case st (fst p) of None \<Rightarrow> None | Some v \<Rightarrow> node_at v (snd p))"

text \<open>
  Reading \<^verbatim>\<open>*p\<close> and writing \<^verbatim>\<open>*p = x\<close>. A pointer that addresses no node of the
  store is outside the defined behaviour of the source (the caller's obligation on views);
  the model reads a null node there and drops the write.
\<close>

definition load_node :: "'d json_store \<Rightarrow> json_ptr \<Rightarrow> 'd json_value" where
  "load_node st p = (case deref st p of None \<Rightarrow> JNull | Some v \<Rightarrow> v)"

definition store_node :: "'d json_store \<Rightarrow> json_ptr \<Rightarrow> 'd json_value \<Rightarrow> 'd json_store" where
  "store_node st p x =
     (case st (fst p) of
        None \<Rightarrow> st
      | Some v \<Rightarrow> st(fst p \<mapsto> replace_at v (snd p) x))"

definition elem_ptr :: "json_ptr \<Rightarrow> nat \<Rightarrow> json_ptr" where
  "elem_ptr p i = (fst p, snd p @ [i])"

text \<open>
  \<^verbatim>\<open>struct json_view { json_value* value; const json_value* root; }\<close> and
  \<^verbatim>\<open>json_cview\<close>, which differs in constness only: one record for both. A function
  that writes through a view returns its result and the store after the call.
\<close>

record json_view =
  "value" :: "json_ptr option"
  root :: "json_ptr option"

definition get_root :: "nat \<Rightarrow> json_view" where
  "get_root a = \<lparr>value = Some (a, []), root = Some (a, [])\<rparr>"

definition get_type :: "'d json_store \<Rightarrow> json_view \<Rightarrow> json_type" where
  "get_type st js =
     (case value js of Some p \<Rightarrow> json_value_type (load_node st p) | None \<Rightarrow> null)"

definition set_type ::
  "'d::zero json_store \<Rightarrow> json_view \<Rightarrow> json_type \<Rightarrow> bool \<times> 'd json_store" where
  "set_type st js type =
     (case value js of
        Some p \<Rightarrow>
          (True,
           (case type of
              null \<Rightarrow> store_node st p JNull
            | integer \<Rightarrow> store_node st p (JInteger 0)
            | unsigned_k \<Rightarrow> store_node st p (JUnsigned 0)
            | real \<Rightarrow> store_node st p (JReal 0)
            | boolean \<Rightarrow> store_node st p (JBoolean False)
            | string_k \<Rightarrow> store_node st p (JString [])
            | array \<Rightarrow> store_node st p (JArray [])
            | object \<Rightarrow> store_node st p (JObject [])
            | binary \<Rightarrow> store_node st p (JBinary [])))
      | None \<Rightarrow> (False, st))"

definition is_valid :: "json_view \<Rightarrow> bool" where
  "is_valid js = (value js \<noteq> None)"

definition is_null :: "'d json_store \<Rightarrow> json_view \<Rightarrow> bool" where
  "is_null st js = (is_valid js \<and> get_type st js = null)"

definition is_integer :: "'d json_store \<Rightarrow> json_view \<Rightarrow> bool" where
  "is_integer st js = (get_type st js = integer)"

definition is_unsigned :: "'d json_store \<Rightarrow> json_view \<Rightarrow> bool" where
  "is_unsigned st js = (get_type st js = unsigned_k)"

definition is_real :: "'d json_store \<Rightarrow> json_view \<Rightarrow> bool" where
  "is_real st js = (get_type st js = real)"

definition is_integral :: "'d json_store \<Rightarrow> json_view \<Rightarrow> bool" where
  "is_integral st js = (get_type st js = integer \<or> get_type st js = unsigned_k)"

definition is_number :: "'d json_store \<Rightarrow> json_view \<Rightarrow> bool" where
  "is_number st js =
     (get_type st js = integer \<or> get_type st js = unsigned_k \<or> get_type st js = real)"

definition is_boolean :: "'d json_store \<Rightarrow> json_view \<Rightarrow> bool" where
  "is_boolean st js = (get_type st js = boolean)"

definition is_string :: "'d json_store \<Rightarrow> json_view \<Rightarrow> bool" where
  "is_string st js = (get_type st js = string_k)"

definition is_array :: "'d json_store \<Rightarrow> json_view \<Rightarrow> bool" where
  "is_array st js = (get_type st js = array)"

definition is_object :: "'d json_store \<Rightarrow> json_view \<Rightarrow> bool" where
  "is_object st js = (get_type st js = object)"

definition is_binary :: "'d json_store \<Rightarrow> json_view \<Rightarrow> bool" where
  "is_binary st js = (get_type st js = binary)"

text \<open>
  Initialization to basic types: \<^verbatim>\<open>set_type\<close>, then the payload is written through
  \<^verbatim>\<open>js.value\<close>.
\<close>

definition set_null :: "'d::zero json_store \<Rightarrow> json_view \<Rightarrow> bool \<times> 'd json_store" where
  "set_null st js =
     (case set_type st js null of (ok, st') \<Rightarrow> if \<not> ok then (False, st') else (True, st'))"

definition set_integer ::
  "'d::zero json_store \<Rightarrow> json_view \<Rightarrow> 64 word \<Rightarrow> bool \<times> 'd json_store" where
  "set_integer st js x =
     (case set_type st js integer of
        (ok, st') \<Rightarrow>
          if ok then (True, store_node st' (the (value js)) (JInteger x)) else (False, st'))"

definition set_unsigned ::
  "'d::zero json_store \<Rightarrow> json_view \<Rightarrow> 64 word \<Rightarrow> bool \<times> 'd json_store" where
  "set_unsigned st js x =
     (case set_type st js unsigned_k of
        (ok, st') \<Rightarrow>
          if ok then (True, store_node st' (the (value js)) (JUnsigned x)) else (False, st'))"

definition set_real ::
  "'d::zero json_store \<Rightarrow> json_view \<Rightarrow> 'd \<Rightarrow> bool \<times> 'd json_store" where
  "set_real st js x =
     (case set_type st js real of
        (ok, st') \<Rightarrow>
          if ok then (True, store_node st' (the (value js)) (JReal x)) else (False, st'))"

definition set_boolean ::
  "'d::zero json_store \<Rightarrow> json_view \<Rightarrow> bool \<Rightarrow> bool \<times> 'd json_store" where
  "set_boolean st js x =
     (case set_type st js boolean of
        (ok, st') \<Rightarrow>
          if ok then (True, store_node st' (the (value js)) (JBoolean x)) else (False, st'))"

definition set_string ::
  "'d::zero json_store \<Rightarrow> json_view \<Rightarrow> string \<Rightarrow> bool \<times> 'd json_store" where
  "set_string st js x =
     (case set_type st js string_k of
        (ok, st') \<Rightarrow>
          if ok then (True, store_node st' (the (value js)) (JString x)) else (False, st'))"

text \<open>
  Get basic values, by out-parameter: the functions return the flag and the out-parameter
  after the call (the argument \<open>x\<close> is its content before).
\<close>

definition get_integer :: "'d json_store \<Rightarrow> json_view \<Rightarrow> 64 word \<Rightarrow> bool \<times> 64 word" where
  "get_integer st js x =
     (if is_integer st js then (True, payload_integer (load_node st (the (value js))))
      else (False, x))"

definition get_unsigned :: "'d json_store \<Rightarrow> json_view \<Rightarrow> 64 word \<Rightarrow> bool \<times> 64 word" where
  "get_unsigned st js x =
     (if is_unsigned st js then (True, payload_unsigned (load_node st (the (value js))))
      else (False, x))"

definition get_real :: "'d json_store \<Rightarrow> json_view \<Rightarrow> 'd \<Rightarrow> bool \<times> 'd" where
  "get_real st js x =
     (if is_real st js then (True, payload_real (load_node st (the (value js))))
      else (False, x))"

definition get_boolean :: "'d json_store \<Rightarrow> json_view \<Rightarrow> bool \<Rightarrow> bool \<times> bool" where
  "get_boolean st js x =
     (if is_boolean st js then (True, payload_boolean (load_node st (the (value js))))
      else (False, x))"

definition get_string :: "'d json_store \<Rightarrow> json_view \<Rightarrow> string \<Rightarrow> bool \<times> string" where
  "get_string st js x =
     (if is_string st js then (True, payload_string (load_node st (the (value js))))
      else (False, x))"

text \<open>
  Get numbers with casts. \<^verbatim>\<open>(int64_t)\<close> of a \<^verbatim>\<open>uint64_t\<close> and back keep the 64
  bits. The casts that involve \<^verbatim>\<open>double\<close> and \<^verbatim>\<open>float\<close> are parameters of the
  model.
\<close>

record ('d, 'f) casts =
  double_of_int64 :: "64 word \<Rightarrow> 'd"
  double_of_uint64 :: "64 word \<Rightarrow> 'd"
  double_of_float :: "'f \<Rightarrow> 'd"
  float_of_double :: "'d \<Rightarrow> 'f"

definition get_integral_int64 ::
  "'d json_store \<Rightarrow> json_view \<Rightarrow> 64 word \<Rightarrow> bool \<times> 64 word" where
  "get_integral_int64 st js x =
     (if is_integer st js then (True, payload_integer (load_node st (the (value js))))
      else if is_unsigned st js then (True, payload_unsigned (load_node st (the (value js))))
      else (False, x))"

definition get_integral_uint64 ::
  "'d json_store \<Rightarrow> json_view \<Rightarrow> 64 word \<Rightarrow> bool \<times> 64 word" where
  "get_integral_uint64 st js x =
     (if is_integer st js then (True, payload_integer (load_node st (the (value js))))
      else if is_unsigned st js then (True, payload_unsigned (load_node st (the (value js))))
      else (False, x))"

definition get_number ::
  "('d, 'f) casts \<Rightarrow> 'd json_store \<Rightarrow> json_view \<Rightarrow> 'd \<Rightarrow> bool \<times> 'd" where
  "get_number c st js x =
     (if is_real st js then (True, payload_real (load_node st (the (value js))))
      else if is_integer st js
      then (True, double_of_int64 c (payload_integer (load_node st (the (value js)))))
      else if is_unsigned st js
      then (True, double_of_uint64 c (payload_unsigned (load_node st (the (value js)))))
      else (False, x))"

text \<open>
  Compound type: the free functions \<^verbatim>\<open>empty\<close>, \<^verbatim>\<open>size\<close>, \<^verbatim>\<open>resize\<close> and
  \<^verbatim>\<open>reserve\<close> on views (named \<open>json_empty\<close>, ... here). The last statement of
  \<^verbatim>\<open>size\<close> is \<^verbatim>\<open>return true;\<close>, which converts to the \<^verbatim>\<open>size_t\<close> 1.
\<close>

definition json_empty :: "'d json_store \<Rightarrow> json_view \<Rightarrow> bool" where
  "json_empty st js =
     (if is_array st js then payload_array (load_node st (the (value js))) = []
      else if is_object st js then payload_object (load_node st (the (value js))) = []
      else if is_string st js then payload_string (load_node st (the (value js))) = []
      else if is_binary st js then payload_binary (load_node st (the (value js))) = []
      else True)"

definition json_size :: "'d json_store \<Rightarrow> json_view \<Rightarrow> nat" where
  "json_size st js =
     (if is_array st js then length (payload_array (load_node st (the (value js))))
      else if is_object st js then length (payload_object (load_node st (the (value js))))
      else if is_string st js then length (payload_string (load_node st (the (value js))))
      else if is_binary st js then length (payload_binary (load_node st (the (value js))))
      else of_bool True)"

definition json_resize ::
  "'d json_store \<Rightarrow> json_view \<Rightarrow> nat \<Rightarrow> bool \<times> 'd json_store" where
  "json_resize st js n =
     (if is_array st js
      then (True, store_node st (the (value js))
              (JArray (vector_resize (payload_array (load_node st (the (value js)))) n JNull)))
      else if is_string st js
      then (True, store_node st (the (value js))
              (JString (vector_resize (payload_string (load_node st (the (value js)))) n
                 (CHR 0x00))))
      else if is_binary st js
      then (True, store_node st (the (value js))
              (JBinary (vector_resize (payload_binary (load_node st (the (value js)))) n 0)))
      else (False, st))"

definition json_reserve ::
  "'d json_store \<Rightarrow> json_view \<Rightarrow> nat \<Rightarrow> bool \<times> 'd json_store" where
  "json_reserve st js n =
     (if is_array st js then (True, st)
      else if is_object st js then (True, st)
      else if is_string st js then (True, st)
      else if is_binary st js then (True, st)
      else (False, st))"

text \<open>Array.\<close>

definition set_array :: "'d::zero json_store \<Rightarrow> json_view \<Rightarrow> bool \<times> 'd json_store" where
  "set_array st js = set_type st js array"

definition array_empty :: "'d json_store \<Rightarrow> json_view \<Rightarrow> bool" where
  "array_empty st js =
     (if is_array st js then payload_array (load_node st (the (value js))) = [] else False)"

definition array_size :: "'d json_store \<Rightarrow> json_view \<Rightarrow> nat" where
  "array_size st js =
     (if is_array st js then length (payload_array (load_node st (the (value js)))) else 0)"

definition resize_array ::
  "'d json_store \<Rightarrow> json_view \<Rightarrow> nat \<Rightarrow> bool \<times> 'd json_store" where
  "resize_array st js n =
     (if is_array st js
      then (True, store_node st (the (value js))
              (JArray (vector_resize (payload_array (load_node st (the (value js)))) n JNull)))
      else (False, st))"

definition set_array_size ::
  "'d::zero json_store \<Rightarrow> json_view \<Rightarrow> nat \<Rightarrow> bool \<times> 'd json_store" where
  "set_array_size st js n =
     (case set_type st js array of
        (ok, st') \<Rightarrow> if ok then resize_array st' js n else (False, st'))"

definition has_index :: "'d json_store \<Rightarrow> json_view \<Rightarrow> nat \<Rightarrow> bool" where
  "has_index st js idx =
     (if is_array st js then idx < length (payload_array (load_node st (the (value js))))
      else False)"

definition get_element_idx :: "'d json_store \<Rightarrow> json_view \<Rightarrow> nat \<Rightarrow> json_view" where
  "get_element_idx st js idx =
     (if is_array st js \<and> idx < array_size st js
      then \<lparr>value = Some (elem_ptr (the (value js)) idx), root = root js\<rparr>
      else \<lparr>value = None, root = root js\<rparr>)"

definition append_element ::
  "'d json_store \<Rightarrow> json_view \<Rightarrow> json_view \<times> 'd json_store" where
  "append_element st js =
     (if is_array st js
      then (let a = payload_array (load_node st (the (value js)))
            in (\<lparr>value = Some (elem_ptr (the (value js)) (length a)), root = root js\<rparr>,
                store_node st (the (value js)) (JArray (a @ [JNull]))))
      else (\<lparr>value = None, root = root js\<rparr>, st))"

text \<open>
  \<^verbatim>\<open>iterate_array\<close> and \<^verbatim>\<open>iterate_object\<close>: the range from \<^verbatim>\<open>data()\<close> to
  \<^verbatim>\<open>data() + size()\<close>, as the list of the views (and keys) the iterator yields.
\<close>

definition iterate_array :: "'d json_store \<Rightarrow> json_view \<Rightarrow> json_view list" where
  "iterate_array st js =
     (if is_array st js
      then map (\<lambda>i. \<lparr>value = Some (elem_ptr (the (value js)) i), root = root js\<rparr>)
             [0 ..< length (payload_array (load_node st (the (value js))))]
      else [])"

definition iterate_object :: "'d json_store \<Rightarrow> json_view \<Rightarrow> (string \<times> json_view) list" where
  "iterate_object st js =
     (if is_object st js
      then (let ob = payload_object (load_node st (the (value js)))
            in map (\<lambda>i. (fst (ob ! i),
                          \<lparr>value = Some (elem_ptr (the (value js)) i), root = root js\<rparr>))
                 [0 ..< length ob])
      else [])"

text \<open>Object. The loops over the pairs are the loop of \<open>find_key\<close>.\<close>

definition set_object :: "'d::zero json_store \<Rightarrow> json_view \<Rightarrow> bool \<times> 'd json_store" where
  "set_object st js = set_type st js object"

definition object_empty :: "'d json_store \<Rightarrow> json_view \<Rightarrow> bool" where
  "object_empty st js =
     (if is_object st js then payload_object (load_node st (the (value js))) = [] else True)"

definition object_size :: "'d json_store \<Rightarrow> json_view \<Rightarrow> nat" where
  "object_size st js =
     (if is_object st js then length (payload_object (load_node st (the (value js)))) else 0)"

definition get_element_key :: "'d json_store \<Rightarrow> json_view \<Rightarrow> string \<Rightarrow> json_view" where
  "get_element_key st js key =
     (if is_object st js
      then (case find_key (payload_object (load_node st (the (value js)))) key of
              Some i \<Rightarrow> \<lparr>value = Some (elem_ptr (the (value js)) i), root = root js\<rparr>
            | None \<Rightarrow> \<lparr>value = None, root = root js\<rparr>)
      else \<lparr>value = None, root = root js\<rparr>)"

definition has_element :: "'d json_store \<Rightarrow> json_view \<Rightarrow> string \<Rightarrow> bool" where
  "has_element st js key = is_valid (get_element_key st js key)"

definition insert_element ::
  "'d json_store \<Rightarrow> json_view \<Rightarrow> string \<Rightarrow> json_view \<times> 'd json_store" where
  "insert_element st js key =
     (if is_object st js
      then (let ob = payload_object (load_node st (the (value js)))
            in case find_key ob key of
                 Some i \<Rightarrow> (\<lparr>value = Some (elem_ptr (the (value js)) i), root = root js\<rparr>, st)
               | None \<Rightarrow>
                   (\<lparr>value = Some (elem_ptr (the (value js)) (length ob)), root = root js\<rparr>,
                    store_node st (the (value js)) (JObject (ob @ [(key, JNull)]))))
      else (\<lparr>value = None, root = root js\<rparr>, st))"

text \<open>Binary.\<close>

definition set_binary ::
  "'d::zero json_store \<Rightarrow> json_view \<Rightarrow> 8 word list \<Rightarrow> bool \<times> 'd json_store" where
  "set_binary st js x =
     (case set_type st js binary of
        (ok, st') \<Rightarrow>
          if ok then (True, store_node st' (the (value js)) (JBinary x)) else (False, st'))"

definition get_binary ::
  "'d json_store \<Rightarrow> json_view \<Rightarrow> 8 word list \<Rightarrow> bool \<times> 8 word list" where
  "get_binary st js x =
     (if is_binary st js then (True, payload_binary (load_node st (the (value js))))
      else (False, x))"

section \<open>The path of a view\<close>

text \<open>\<^verbatim>\<open>std::to_string\<close> of a non-negative integer: its decimal digits.\<close>

fun to_string :: "nat \<Rightarrow> string" where
  "to_string n =
     (if n < 10 then [''0123456789'' ! n]
      else to_string (n div 10) @ [''0123456789'' ! (n mod 10)])"

declare to_string.simps [simp del]

text \<open>
  \<^verbatim>\<open>_compute_path(js, jsv, path)\<close> searches the tree below \<^verbatim>\<open>js.value\<close> for the node
  \<^verbatim>\<open>jsv.value\<close>. The recursion follows the tree, so the model takes the pointer
  \<^verbatim>\<open>js.value\<close> as \<open>p\<close> together with the node \<open>v\<close> it addresses (\<^verbatim>\<open>js.root\<close> is
  \<open>r\<close>); the views that \<^verbatim>\<open>iterate_array\<close> and \<^verbatim>\<open>iterate_object\<close> yield are the
  element pointers with the same root. The result is the flag and \<^verbatim>\<open>path\<close> after the
  call. In the array loop the variable \<^verbatim>\<open>idx\<close> is initialised to 0 and the loop body
  has no statement that changes it: the loop functions carry it unchanged, next to the
  position \<open>i\<close> of the element the iterator is at. \<^verbatim>\<open>path.back()\<close> is read after a
  successful call only, when \<^verbatim>\<open>path\<close> is not empty.
\<close>

function (sequential) compute_path_rec ::
    "json_ptr option \<Rightarrow> json_view \<Rightarrow> json_ptr option \<Rightarrow> 'd json_value \<Rightarrow> string
       \<Rightarrow> bool \<times> string"
  and compute_path_array ::
    "json_ptr option \<Rightarrow> json_view \<Rightarrow> json_ptr \<Rightarrow> nat \<Rightarrow> nat \<Rightarrow> 'd json_value list \<Rightarrow> string
       \<Rightarrow> bool \<times> string"
  and compute_path_object ::
    "json_ptr option \<Rightarrow> json_view \<Rightarrow> json_ptr \<Rightarrow> nat \<Rightarrow> (string \<times> 'd json_value) list
       \<Rightarrow> string \<Rightarrow> bool \<times> string"
where
  "compute_path_rec r jsv p v path =
     (if p = None \<or> r = None \<or> value jsv = None \<or> root jsv = None then (False, path)
      else if p = value jsv then (True, ''/'')
      else (case v of
              JArray a \<Rightarrow> compute_path_array r jsv (the p) 0 0 a path
            | JObject ob \<Rightarrow> compute_path_object r jsv (the p) 0 ob path
            | _ \<Rightarrow> (False, path)))"
| "compute_path_array r jsv p idx i [] path = (False, path)"
| "compute_path_array r jsv p idx i (e # es) path =
     (case compute_path_rec r jsv (Some (elem_ptr p i)) e path of
        (ok, path') \<Rightarrow>
          if \<not> ok then compute_path_array r jsv p idx (Suc i) es path'
          else (True, ''/'' @ to_string idx @
                      (if last path' = CHR ''/'' then butlast path' else path')))"
| "compute_path_object r jsv p i [] path = (False, path)"
| "compute_path_object r jsv p i ((key, e) # es) path =
     (case compute_path_rec r jsv (Some (elem_ptr p i)) e path of
        (ok, path') \<Rightarrow>
          if \<not> ok then compute_path_object r jsv p (Suc i) es path'
          else (True, ''/'' @ key @
                      (if last path' = CHR ''/'' then butlast path' else path')))"
  by pat_completeness auto

termination
  by (relation "measure (\<lambda>x. case x of
        Inl (r, jsv, p, v, path) \<Rightarrow> 2 * size v
      | Inr (Inl (r, jsv, p, idx, i, a, path)) \<Rightarrow> 2 * size_list size a + 1
      | Inr (Inr (r, jsv, p, i, ob, path)) \<Rightarrow>
          2 * size_list (size_prod (\<lambda>_. 0) size) ob + 1)") auto

text \<open>
  \<^verbatim>\<open>compute_path(js)\<close> starts the search at the view \<^verbatim>\<open>{js.root, js.root}\<close> with an
  empty path.
\<close>

definition compute_path :: "'d json_store \<Rightarrow> json_view \<Rightarrow> string" where
  "compute_path st js =
     (case compute_path_rec (root js) js (root js)
             (case root js of None \<Rightarrow> JNull | Some r \<Rightarrow> load_node st r) [] of
        (ok, path) \<Rightarrow> if ok then path else [])"

text \<open>Error formatting for conversion.\<close>

definition format_error :: "'d json_store \<Rightarrow> json_view \<Rightarrow> string \<Rightarrow> string" where
  "format_error st js message =
     (let path = compute_path st js
      in if path = [] then message @ '' in json'' else message @ '' at '' @ path)"

section \<open>The conversion protocol\<close>

text \<open>
  \<^verbatim>\<open>get_value\<close> and \<^verbatim>\<open>set_value\<close> are overloaded on the native type \<^verbatim>\<open>T\<close>:
  \<^verbatim>\<open>int64_t\<close>, \<^verbatim>\<open>int32_t\<close>, \<^verbatim>\<open>uint64_t\<close>, \<^verbatim>\<open>uint32_t\<close>, \<^verbatim>\<open>double\<close>,
  \<^verbatim>\<open>float\<close>, \<^verbatim>\<open>bool\<close>, \<^verbatim>\<open>string\<close>, and the templates for \<^verbatim>\<open>vector<T>\<close> and
  \<^verbatim>\<open>array<T, N>\<close>. First the scalar overloads, each on its own type. The error string
  is an in-out parameter: the functions take its content before the call and return the
  flag, the out-parameter (or the store) and the error string after the call.
\<close>

definition get_value_int64 ::
  "'d json_store \<Rightarrow> json_view \<Rightarrow> 64 word \<Rightarrow> string \<Rightarrow> bool \<times> 64 word \<times> string" where
  "get_value_int64 st js x error =
     (case get_integral_int64 st js x of
        (ok, x') \<Rightarrow>
          if ok then (True, x', error)
          else (False, x', format_error st js ''integer expected''))"

definition get_value_int32 ::
  "'d json_store \<Rightarrow> json_view \<Rightarrow> 32 word \<Rightarrow> string \<Rightarrow> bool \<times> 32 word \<times> string" where
  "get_value_int32 st js x error =
     (case get_value_int64 st js 0 error of
        (ok, value64, error') \<Rightarrow>
          if \<not> ok then (False, x, error') else (True, ucast value64, error'))"

definition get_value_uint64 ::
  "'d json_store \<Rightarrow> json_view \<Rightarrow> 64 word \<Rightarrow> string \<Rightarrow> bool \<times> 64 word \<times> string" where
  "get_value_uint64 st js x error =
     (case get_integral_uint64 st js x of
        (ok, x') \<Rightarrow>
          if ok then (True, x', error)
          else (False, x', format_error st js ''integer expected''))"

definition get_value_uint32 ::
  "'d json_store \<Rightarrow> json_view \<Rightarrow> 32 word \<Rightarrow> string \<Rightarrow> bool \<times> 32 word \<times> string" where
  "get_value_uint32 st js x error =
     (case get_value_uint64 st js 0 error of
        (ok, value64, error') \<Rightarrow>
          if \<not> ok then (False, x, error') else (True, ucast value64, error'))"

definition get_value_double ::
  "('d, 'f) casts \<Rightarrow> 'd json_store \<Rightarrow> json_view \<Rightarrow> 'd \<Rightarrow> string \<Rightarrow> bool \<times> 'd \<times> string" where
  "get_value_double c st js x error =
     (case get_number c st js x of
        (ok, x') \<Rightarrow>
          if ok then (True, x', error)
          else (False, x', format_error st js ''number expected''))"

definition get_value_float ::
  "('d::zero, 'f) casts \<Rightarrow> 'd json_store \<Rightarrow> json_view \<Rightarrow> 'f \<Rightarrow> string
     \<Rightarrow> bool \<times> 'f \<times> string" where
  "get_value_float c st js x error =
     (case get_value_double c st js 0 error of
        (ok, value64, error') \<Rightarrow>
          if \<not> ok then (False, x, error') else (True, float_of_double c value64, error'))"

definition get_value_bool ::
  "'d json_store \<Rightarrow> json_view \<Rightarrow> bool \<Rightarrow> string \<Rightarrow> bool \<times> bool \<times> string" where
  "get_value_bool st js x error =
     (case get_boolean st js x of
        (ok, x') \<Rightarrow>
          if ok then (True, x', error)
          else (False, x', format_error st js ''boolean expected''))"

definition get_value_string ::
  "'d json_store \<Rightarrow> json_view \<Rightarrow> string \<Rightarrow> string \<Rightarrow> bool \<times> string \<times> string" where
  "get_value_string st js x error =
     (case get_string st js x of
        (ok, x') \<Rightarrow>
          if ok then (True, x', error)
          else (False, x', format_error st js ''string expected''))"

definition set_value_int64 ::
  "'d::zero json_store \<Rightarrow> json_view \<Rightarrow> 64 word \<Rightarrow> string \<Rightarrow> bool \<times> 'd json_store \<times> string"
  where
  "set_value_int64 st js x error =
     (case set_integer st js x of
        (ok, st') \<Rightarrow>
          if ok then (True, st', error)
          else (False, st', format_error st' js ''integer expected''))"

definition set_value_int32 ::
  "'d::zero json_store \<Rightarrow> json_view \<Rightarrow> 32 word \<Rightarrow> string \<Rightarrow> bool \<times> 'd json_store \<times> string"
  where
  "set_value_int32 st js x error = set_value_int64 st js (scast x) error"

definition set_value_uint64 ::
  "'d::zero json_store \<Rightarrow> json_view \<Rightarrow> 64 word \<Rightarrow> string \<Rightarrow> bool \<times> 'd json_store \<times> string"
  where
  "set_value_uint64 st js x error =
     (case set_unsigned st js x of
        (ok, st') \<Rightarrow>
          if ok then (True, st', error)
          else (False, st', format_error st' js ''unsigned expected''))"

definition set_value_uint32 ::
  "'d::zero json_store \<Rightarrow> json_view \<Rightarrow> 32 word \<Rightarrow> string \<Rightarrow> bool \<times> 'd json_store \<times> string"
  where
  "set_value_uint32 st js x error = set_value_uint64 st js (ucast x) error"

definition set_value_double ::
  "'d::zero json_store \<Rightarrow> json_view \<Rightarrow> 'd \<Rightarrow> string \<Rightarrow> bool \<times> 'd json_store \<times> string"
  where
  "set_value_double st js x error =
     (case set_real st js x of
        (ok, st') \<Rightarrow>
          if ok then (True, st', error)
          else (False, st', format_error st' js ''real expected''))"

definition set_value_float ::
  "('d::zero, 'f) casts \<Rightarrow> 'd json_store \<Rightarrow> json_view \<Rightarrow> 'f \<Rightarrow> string
     \<Rightarrow> bool \<times> 'd json_store \<times> string" where
  "set_value_float c st js x error = set_value_double st js (double_of_float c x) error"

definition set_value_bool ::
  "'d::zero json_store \<Rightarrow> json_view \<Rightarrow> bool \<Rightarrow> string \<Rightarrow> bool \<times> 'd json_store \<times> string"
  where
  "set_value_bool st js x error =
     (case set_boolean st js x of
        (ok, st') \<Rightarrow>
          if ok then (True, st', error)
          else (False, st', format_error st' js ''boolean expected''))"

definition set_value_string ::
  "'d::zero json_store \<Rightarrow> json_view \<Rightarrow> string \<Rightarrow> string \<Rightarrow> bool \<times> 'd json_store \<times> string"
  where
  "set_value_string st js x error =
     (case set_string st js x of
        (ok, st') \<Rightarrow>
          if ok then (True, st', error)
          else (False, st', format_error st' js ''string expected''))"

text \<open>
  The templates recurse over the native type. \<open>ntype\<close> is the type \<^verbatim>\<open>T\<close> that
  overload resolution works on, \<open>native\<close> a value of such a type; \<open>has_type\<close> is C++
  typing (an \<^verbatim>\<open>array<T, N>\<close> has \<open>N\<close> elements). \<open>default_native\<close> is the
  value-initialised \<^verbatim>\<open>T{}\<close> that \<^verbatim>\<open>emplace_back()\<close> appends. The selectors read a
  value at its static type.
\<close>

datatype ntype =
    T_int64 | T_int32 | T_uint64 | T_uint32 | T_double | T_float | T_bool | T_string
  | T_vector ntype
  | T_array ntype nat

datatype ('d, 'f) native =
    N_int64 (the_int64: "64 word")
  | N_int32 (the_int32: "32 word")
  | N_uint64 (the_uint64: "64 word")
  | N_uint32 (the_uint32: "32 word")
  | N_double (the_double: 'd)
  | N_float (the_float: 'f)
  | N_bool (the_bool: bool)
  | N_string (the_string: string)
  | N_vector (the_vector: "('d, 'f) native list")
  | N_array (the_array: "('d, 'f) native list")

fun has_type :: "('d, 'f) native \<Rightarrow> ntype \<Rightarrow> bool" where
  "has_type (N_int64 _) t = (t = T_int64)"
| "has_type (N_int32 _) t = (t = T_int32)"
| "has_type (N_uint64 _) t = (t = T_uint64)"
| "has_type (N_uint32 _) t = (t = T_uint32)"
| "has_type (N_double _) t = (t = T_double)"
| "has_type (N_float _) t = (t = T_float)"
| "has_type (N_bool _) t = (t = T_bool)"
| "has_type (N_string _) t = (t = T_string)"
| "has_type (N_vector xs) t =
     (case t of T_vector t' \<Rightarrow> list_all (\<lambda>x. has_type x t') xs | _ \<Rightarrow> False)"
| "has_type (N_array xs) t =
     (case t of T_array t' n \<Rightarrow> length xs = n \<and> list_all (\<lambda>x. has_type x t') xs
      | _ \<Rightarrow> False)"

fun default_native :: "ntype \<Rightarrow> ('d::zero, 'f::zero) native" where
  "default_native T_int64 = N_int64 0"
| "default_native T_int32 = N_int32 0"
| "default_native T_uint64 = N_uint64 0"
| "default_native T_uint32 = N_uint32 0"
| "default_native T_double = N_double 0"
| "default_native T_float = N_float 0"
| "default_native T_bool = N_bool False"
| "default_native T_string = N_string []"
| "default_native (T_vector t) = N_vector []"
| "default_native (T_array t n) = N_array (replicate n (default_native t))"

text \<open>
  \<^verbatim>\<open>template <typename T> bool get_value(json_cview js, T& value)\<close> and its
  \<^verbatim>\<open>set_value\<close> twin: a local \<^verbatim>\<open>auto error = string{}\<close> is passed on and dropped at
  the return.
\<close>

definition get_value_noerror ::
  "(json_view \<Rightarrow> 'n \<Rightarrow> string \<Rightarrow> bool \<times> 'n \<times> string) \<Rightarrow> json_view \<Rightarrow> 'n \<Rightarrow> bool \<times> 'n" where
  "get_value_noerror get_value_T js x = (case get_value_T js x [] of (ok, x', error) \<Rightarrow> (ok, x'))"

text \<open>
  The loop of \<^verbatim>\<open>get_value(json_cview, vector<T>&, string&)\<close>:
  \<^verbatim>\<open>for (auto ejs : iterate_array(js)) if (!get_value(ejs, value.emplace_back())) return false;\<close>
  and the loop of the \<^verbatim>\<open>array<T, N>\<close> overload:
  \<^verbatim>\<open>for (idx = 0; idx < size(js); idx++) if (!get_value(get_element(js, idx), value.at(idx))) return false;\<close>
  Both call the two-argument \<^verbatim>\<open>get_value\<close>. \<^verbatim>\<open>value.at(idx)\<close> is in range, since
  the loop runs under \<^verbatim>\<open>array_size(js) == N\<close>.
\<close>

fun get_value_vector_loop ::
  "(json_view \<Rightarrow> 'n \<Rightarrow> bool \<times> 'n) \<Rightarrow> 'n \<Rightarrow> json_view list \<Rightarrow> 'n list \<Rightarrow> bool \<times> 'n list" where
  "get_value_vector_loop get dflt [] xs = (True, xs)"
| "get_value_vector_loop get dflt (ejs # rest) xs =
     (case get ejs dflt of
        (ok, x) \<Rightarrow>
          if \<not> ok then (False, xs @ [x]) else get_value_vector_loop get dflt rest (xs @ [x]))"

fun get_value_array_loop ::
  "(json_view \<Rightarrow> 'n \<Rightarrow> bool \<times> 'n) \<Rightarrow> 'd json_store \<Rightarrow> json_view \<Rightarrow> nat list \<Rightarrow> 'n list
     \<Rightarrow> bool \<times> 'n list" where
  "get_value_array_loop get st js [] xs = (True, xs)"
| "get_value_array_loop get st js (idx # rest) xs =
     (case get (get_element_idx st js idx) (xs ! idx) of
        (ok, x) \<Rightarrow>
          if \<not> ok then (False, xs[idx := x])
          else get_value_array_loop get st js rest (xs[idx := x]))"

fun get_value ::
  "('d::zero, 'f::zero) casts \<Rightarrow> ntype \<Rightarrow> 'd json_store \<Rightarrow> json_view \<Rightarrow> ('d, 'f) native
     \<Rightarrow> string \<Rightarrow> bool \<times> ('d, 'f) native \<times> string" where
  "get_value c T_int64 st js x error =
     (case get_value_int64 st js (the_int64 x) error of (ok, a, e) \<Rightarrow> (ok, N_int64 a, e))"
| "get_value c T_int32 st js x error =
     (case get_value_int32 st js (the_int32 x) error of (ok, a, e) \<Rightarrow> (ok, N_int32 a, e))"
| "get_value c T_uint64 st js x error =
     (case get_value_uint64 st js (the_uint64 x) error of (ok, a, e) \<Rightarrow> (ok, N_uint64 a, e))"
| "get_value c T_uint32 st js x error =
     (case get_value_uint32 st js (the_uint32 x) error of (ok, a, e) \<Rightarrow> (ok, N_uint32 a, e))"
| "get_value c T_double st js x error =
     (case get_value_double c st js (the_double x) error of
        (ok, a, e) \<Rightarrow> (ok, N_double a, e))"
| "get_value c T_float st js x error =
     (case get_value_float c st js (the_float x) error of (ok, a, e) \<Rightarrow> (ok, N_float a, e))"
| "get_value c T_bool st js x error =
     (case get_value_bool st js (the_bool x) error of (ok, a, e) \<Rightarrow> (ok, N_bool a, e))"
| "get_value c T_string st js x error =
     (case get_value_string st js (the_string x) error of
        (ok, a, e) \<Rightarrow> (ok, N_string a, e))"
| "get_value c (T_vector t) st js x error =
     (if is_array st js
      then (case get_value_vector_loop (get_value_noerror (get_value c t st))
                   (default_native t) (iterate_array st js) [] of
              (ok, xs) \<Rightarrow> (ok, N_vector xs, error))
      else (False, x, format_error st js ''array expected''))"
| "get_value c (T_array t n) st js x error =
     (if is_array st js \<and> array_size st js = n
      then (case get_value_array_loop (get_value_noerror (get_value c t st)) st js
                   [0 ..< json_size st js] (the_array x) of
              (ok, xs) \<Rightarrow> (ok, N_array xs, error))
      else (False, x,
            format_error st js
              (if \<not> is_array st js then ''array expected'' else ''array size mismatched'')))"

text \<open>
  \<^verbatim>\<open>set_value\<close>: the scalar overloads, and the templates for \<^verbatim>\<open>vector<T>\<close> and
  \<^verbatim>\<open>array<T, N>\<close> with their loops
  \<^verbatim>\<open>for (auto& v : value) if (!set_value(get_element(js, idx++), v)) return false;\<close>
  (the \<^verbatim>\<open>vector\<close> overload, through the two-argument \<^verbatim>\<open>set_value\<close>) and
  \<^verbatim>\<open>if (!set_value(get_element(js, idx++), v, error)) return false;\<close> (the
  \<^verbatim>\<open>array\<close> overload).
\<close>

function (sequential)
    set_value ::
      "('d::zero, 'f) casts \<Rightarrow> 'd json_store \<Rightarrow> json_view \<Rightarrow> ('d, 'f) native \<Rightarrow> string
         \<Rightarrow> bool \<times> 'd json_store \<times> string"
  and set_value_vector_loop ::
      "('d::zero, 'f) casts \<Rightarrow> 'd json_store \<Rightarrow> json_view \<Rightarrow> nat \<Rightarrow> ('d, 'f) native list
         \<Rightarrow> bool \<times> 'd json_store"
  and set_value_array_loop ::
      "('d::zero, 'f) casts \<Rightarrow> 'd json_store \<Rightarrow> json_view \<Rightarrow> nat \<Rightarrow> ('d, 'f) native list
         \<Rightarrow> string \<Rightarrow> bool \<times> 'd json_store \<times> string"
where
  "set_value c st js (N_int64 a) error = set_value_int64 st js a error"
| "set_value c st js (N_int32 a) error = set_value_int32 st js a error"
| "set_value c st js (N_uint64 a) error = set_value_uint64 st js a error"
| "set_value c st js (N_uint32 a) error = set_value_uint32 st js a error"
| "set_value c st js (N_double a) error = set_value_double st js a error"
| "set_value c st js (N_float a) error = set_value_float c st js a error"
| "set_value c st js (N_bool a) error = set_value_bool st js a error"
| "set_value c st js (N_string a) error = set_value_string st js a error"
| "set_value c st js (N_vector xs) error =
     (case set_array_size st js (length xs) of
        (ok, st1) \<Rightarrow>
          if ok then (case set_value_vector_loop c st1 js 0 xs of (ok', st2) \<Rightarrow> (ok', st2, error))
          else (False, st1, format_error st1 js ''array expected''))"
| "set_value c st js (N_array xs) error =
     (case set_array_size st js (length xs) of
        (ok, st1) \<Rightarrow>
          if ok then set_value_array_loop c st1 js 0 xs error
          else (False, st1, format_error st1 js ''array expected''))"
| "set_value_vector_loop c st js idx [] = (True, st)"
| "set_value_vector_loop c st js idx (v # vs) =
     (case set_value c st (get_element_idx st js idx) v [] of
        (ok, st', e) \<Rightarrow>
          if \<not> ok then (False, st') else set_value_vector_loop c st' js (Suc idx) vs)"
| "set_value_array_loop c st js idx [] error = (True, st, error)"
| "set_value_array_loop c st js idx (v # vs) error =
     (case set_value c st (get_element_idx st js idx) v error of
        (ok, st', e) \<Rightarrow>
          if \<not> ok then (False, st', e) else set_value_array_loop c st' js (Suc idx) vs e)"
  by pat_completeness auto

termination
  by (relation "measure (\<lambda>x. case x of
        Inl (c, st, js, v, error) \<Rightarrow> 2 * size v
      | Inr (Inl (c, st, js, idx, vs)) \<Rightarrow> 2 * size_list size vs + 1
      | Inr (Inr (c, st, js, idx, vs, error)) \<Rightarrow> 2 * size_list size vs + 1)") auto

text \<open>
  Get value at a key or index (\<^verbatim>\<open>get_value_at\<close>), and at a key if it is present
  (\<^verbatim>\<open>get_value_if\<close>), for the native type \<open>t\<close>.
\<close>

definition get_value_at_key ::
  "('d::zero, 'f::zero) casts \<Rightarrow> ntype \<Rightarrow> 'd json_store \<Rightarrow> json_view \<Rightarrow> string
     \<Rightarrow> ('d, 'f) native \<Rightarrow> string \<Rightarrow> bool \<times> ('d, 'f) native \<times> string" where
  "get_value_at_key c t st js key x error =
     (let element = get_element_key st js key
      in if is_valid element then get_value c t st element x error
         else (False, x, format_error st js (''missing key '' @ key)))"

definition get_value_at_idx ::
  "('d::zero, 'f::zero) casts \<Rightarrow> ntype \<Rightarrow> 'd json_store \<Rightarrow> json_view \<Rightarrow> nat
     \<Rightarrow> ('d, 'f) native \<Rightarrow> string \<Rightarrow> bool \<times> ('d, 'f) native \<times> string" where
  "get_value_at_idx c t st js idx x error =
     (let element = get_element_idx st js idx
      in if is_valid element then get_value c t st element x error
         else (False, x, format_error st js (''index out of range '' @ to_string idx)))"

definition get_value_if ::
  "('d::zero, 'f::zero) casts \<Rightarrow> ntype \<Rightarrow> 'd json_store \<Rightarrow> json_view \<Rightarrow> string
     \<Rightarrow> ('d, 'f) native \<Rightarrow> string \<Rightarrow> bool \<times> ('d, 'f) native \<times> string" where
  "get_value_if c t st js key x error =
     (let ejs = get_element_key st js key
      in if is_valid ejs then get_value c t st ejs x error
         else if is_object st js then (True, x, error)
         else (False, x, format_error st js ''object expected''))"

text \<open>
  The node that \<^verbatim>\<open>set_value\<close> leaves at its target for a native value: the subject of
  the facts about \<^verbatim>\<open>set_value\<close> below, not a function of the source.
\<close>

fun json_of_native :: "('d, 'f) casts \<Rightarrow> ('d, 'f) native \<Rightarrow> 'd json_value" where
  "json_of_native c (N_int64 a) = JInteger a"
| "json_of_native c (N_int32 a) = JInteger (scast a)"
| "json_of_native c (N_uint64 a) = JUnsigned a"
| "json_of_native c (N_uint32 a) = JUnsigned (ucast a)"
| "json_of_native c (N_double a) = JReal a"
| "json_of_native c (N_float a) = JReal (double_of_float c a)"
| "json_of_native c (N_bool a) = JBoolean a"
| "json_of_native c (N_string a) = JString a"
| "json_of_native c (N_vector xs) = JArray (map (json_of_native c) xs)"
| "json_of_native c (N_array xs) = JArray (map (json_of_native c) xs)"

text \<open>
  An instance of the casts for evaluating the model on examples: \<^verbatim>\<open>double\<close> and
  \<^verbatim>\<open>float\<close> are read as the integers, which is what the casts do on the small whole
  numbers of the examples.
\<close>

definition int_casts :: "(int, int) casts" where
  "int_casts =
     \<lparr>double_of_int64 = sint, double_of_uint64 = uint, double_of_float = id,
      float_of_double = id\<rparr>"

section \<open>Facts about the store\<close>

lemma node_at_replace_at_same:
  "node_at v p \<noteq> None \<Longrightarrow> node_at (replace_at v p x) p = Some x"
  by (induction v p x rule: replace_at.induct) (auto split: if_splits)

lemma deref_store_same:
  "deref st p \<noteq> None \<Longrightarrow> deref (store_node st p x) p = Some x"
  by (auto simp: deref_def store_node_def node_at_replace_at_same split: option.splits)

lemma load_store_same:
  "deref st p \<noteq> None \<Longrightarrow> load_node (store_node st p x) p = x"
  by (simp add: load_node_def deref_store_same)

text \<open>Definitions that are unfolded together.\<close>

lemmas is_kind_defs =
  is_valid_def is_null_def is_integer_def is_unsigned_def is_real_def is_integral_def
  is_number_def is_boolean_def is_string_def is_array_def is_object_def is_binary_def

lemmas json_value_is_defs =
  json_value_is_null_def json_value_is_integer_def json_value_is_unsigned_def
  json_value_is_real_def json_value_is_bool_def json_value_is_string_def
  json_value_is_array_def json_value_is_object_def json_value_is_binary_def

lemmas json_value_get_defs =
  json_value_get_integer_def json_value_get_unsigned_def json_value_get_real_def
  json_value_get_boolean_def json_value_get_string_def json_value_get_array_def
  json_value_get_object_def json_value_get_binary_def

section \<open>Facts about the navigation functions\<close>

lemma set_type_valid:
  assumes "value js = Some p" "deref st p \<noteq> None"
  shows "set_type st js k = (True, store_node st p (json_value_set_type k w))"
  using assms by (cases k) (simp_all add: set_type_def json_value_set_type_def)

lemma get_type_store_same:
  assumes "value js = Some p" "deref st p \<noteq> None"
  shows "get_type (store_node st p x) js = json_value_type x"
  using assms by (simp add: get_type_def load_store_same)

section \<open>Facts about paths\<close>

text \<open>
  What holds of \<^verbatim>\<open>compute_path\<close> in general: the empty string for an invalid view,
  for a view without root and for a target that does not lie below the root; \<^verbatim>\<open>/\<close>
  for the root view.
\<close>

lemma compute_path_invalid: "value js = None \<Longrightarrow> compute_path st js = []"
  by (simp add: compute_path_def)

lemma compute_path_no_root: "root js = None \<Longrightarrow> compute_path st js = []"
  by (simp add: compute_path_def)

lemma compute_path_root:
  "root js = Some r \<Longrightarrow> value js = Some r \<Longrightarrow> compute_path st js = ''/''"
  by (simp add: compute_path_def)

lemma compute_path_rec_below:
  fixes v :: "'d json_value" and a :: "'d json_value list"
    and ob :: "(string \<times> 'd json_value) list"
  shows "fst (compute_path_rec r jsv p v path) \<Longrightarrow>
           \<exists>q. value jsv = Some (fst (the p), snd (the p) @ q)"
    and "fst (compute_path_array r jsv p' idx i a path) \<Longrightarrow>
           \<exists>q. value jsv = Some (fst p', snd p' @ q)"
    and "fst (compute_path_object r jsv p' i ob path) \<Longrightarrow>
           \<exists>q. value jsv = Some (fst p', snd p' @ q)"
proof (induction r jsv p v path and r jsv p' idx i a path and r jsv p' i ob path
    rule: compute_path_rec_compute_path_array_compute_path_object.induct)
  case (1 r jsv p v path)
  show ?case
  proof (cases "p = value jsv")
    case True
    with 1(3) have "value jsv = Some (fst (the p), snd (the p) @ [])"
      by (auto split: if_splits)
    then show ?thesis by blast
  next
    case False
    with 1 show ?thesis by (cases v) (auto split: if_splits)
  qed
next
  case (2 r jsv p idx i path)
  then show ?case by simp
next
  case (3 r jsv p idx i e es path)
  show ?case
  proof (cases "fst (compute_path_rec r jsv (Some (elem_ptr p i)) e path)")
    case True
    from 3(1) [OF True] obtain q where "value jsv = Some (fst p, snd p @ i # q)"
      by (auto simp: elem_ptr_def)
    then show ?thesis by blast
  next
    case False
    with 3(2) [of "fst (compute_path_rec r jsv (Some (elem_ptr p i)) e path)"
        "snd (compute_path_rec r jsv (Some (elem_ptr p i)) e path)"] 3(3)
    show ?thesis by (auto split: prod.splits)
  qed
next
  case (4 r jsv p i path)
  then show ?case by simp
next
  case (5 r jsv p i key e es path)
  show ?case
  proof (cases "fst (compute_path_rec r jsv (Some (elem_ptr p i)) e path)")
    case True
    from 5(1) [OF True] obtain q where "value jsv = Some (fst p, snd p @ i # q)"
      by (auto simp: elem_ptr_def)
    then show ?thesis by blast
  next
    case False
    with 5(2) [of "fst (compute_path_rec r jsv (Some (elem_ptr p i)) e path)"
        "snd (compute_path_rec r jsv (Some (elem_ptr p i)) e path)"] 5(3)
    show ?thesis by (auto split: prod.splits)
  qed
qed

lemma compute_path_unreachable:
  assumes "root js = Some r" and "value js = Some t"
    and "\<not> (\<exists>q. t = (fst r, snd r @ q))"
  shows "compute_path st js = []"
proof -
  have "\<not> fst (compute_path_rec (root js) js (root js) (load_node st r) [])"
    using compute_path_rec_below(1) [of "root js" js "root js" "load_node st r" "[]"] assms
    by auto
  with assms(1) show ?thesis
    by (auto simp: compute_path_def split: prod.splits simp del: compute_path_rec.simps)
qed

section \<open>Facts about objects\<close>

lemma find_key_None_iff: "find_key ob key = None \<longleftrightarrow> key \<notin> set (map fst ob)"
  by (induction ob key rule: find_key.induct) auto

lemma find_key_Some_iff:
  "find_key ob key = Some i \<longleftrightarrow>
     i < length ob \<and> fst (ob ! i) = key \<and> (\<forall>j<i. fst (ob ! j) \<noteq> key)"
proof (induction ob key arbitrary: i rule: find_key.induct)
  case (1 key)
  then show ?case by simp
next
  case (2 k v rest key)
  show ?case
  proof (cases "k = key")
    case True
    then show ?thesis by (cases i) auto
  next
    case False
    show ?thesis
    proof (cases i)
      case 0
      with False show ?thesis by auto
    next
      case (Suc i')
      have "(\<forall>j<Suc i'. fst (((k, v) # rest) ! j) \<noteq> key) \<longleftrightarrow> (\<forall>j<i'. fst (rest ! j) \<noteq> key)"
        using False by (auto simp: less_Suc_eq_0_disj)
      with False Suc 2 [of i'] show ?thesis by auto
    qed
  qed
qed

lemma find_key_keys: "map fst ob' = map fst ob \<Longrightarrow> find_key ob' key = find_key ob key"
proof (induction ob key arbitrary: ob' rule: find_key.induct)
  case (1 key)
  then show ?case by simp
next
  case (2 k v rest key)
  then obtain k' v' rest' where "ob' = (k', v') # rest'" by (cases ob') auto
  with 2 show ?case by auto
qed

lemma find_key_append_new:
  "find_key ob key = None \<Longrightarrow> find_key (ob @ [(key, v)]) key = Some (length ob)"
  by (induction ob key rule: find_key.induct) (auto split: if_splits)

lemma map_fst_update_value: "i < length ob \<Longrightarrow> map fst (ob[i := (fst (ob ! i), x)]) = map fst ob"
  by (simp add: map_update list_update_same_conv)

lemma count_list_zero_iff: "count_list xs x = 0 \<longleftrightarrow> x \<notin> set xs"
  by (induction xs) auto

lemma load_node_kind_deref:
  "json_value_type (load_node st p) \<noteq> null \<Longrightarrow> deref st p = Some (load_node st p)"
  by (auto simp: load_node_def split: option.splits)

lemma is_object_deref:
  assumes "is_object st js"
  shows "\<exists>p ob. value js = Some p \<and> deref st p = Some (JObject ob) \<and>
                load_node st p = JObject ob"
proof -
  from assms obtain p where p: "value js = Some p"
    and t: "json_value_type (load_node st p) = object"
    by (auto simp: is_object_def get_type_def split: option.splits)
  from t obtain ob where ob: "load_node st p = JObject ob"
    by (cases "load_node st p") auto
  with t have "deref st p = Some (JObject ob)"
    using load_node_kind_deref [of st p] by simp
  with p ob show ?thesis by blast
qed

lemma insert_element_twice:
  assumes "is_object st js"
  shows "insert_element (snd (insert_element st js key)) js key = insert_element st js key \<and>
         is_valid (fst (insert_element st js key)) \<and>
         is_object (snd (insert_element st js key)) js \<and>
         get_element_key (snd (insert_element st js key)) js key = fst (insert_element st js key)"
proof -
  from is_object_deref [OF assms] obtain p ob where p: "value js = Some p"
    and d: "deref st p = Some (JObject ob)" and l: "load_node st p = JObject ob"
    by blast
  show ?thesis
  proof (cases "find_key ob key")
    case None
    let ?st1 = "store_node st p (JObject (ob @ [(key, JNull)]))"
    have ins: "insert_element st js key =
        (\<lparr>value = Some (elem_ptr p (length ob)), root = root js\<rparr>, ?st1)"
      using assms p l None by (simp add: insert_element_def)
    have l1: "load_node ?st1 p = JObject (ob @ [(key, JNull)])"
      using d by (simp add: load_store_same)
    have o1: "is_object ?st1 js"
      using p l1 by (simp add: is_object_def get_type_def)
    have ins2: "insert_element ?st1 js key =
        (\<lparr>value = Some (elem_ptr p (length ob)), root = root js\<rparr>, ?st1)"
      using o1 p l1 find_key_append_new [OF None, of JNull] by (simp add: insert_element_def)
    have ge: "get_element_key ?st1 js key =
        \<lparr>value = Some (elem_ptr p (length ob)), root = root js\<rparr>"
      using o1 p l1 find_key_append_new [OF None, of JNull] by (simp add: get_element_key_def)
    show ?thesis
      by (simp add: ins ins2 ge o1 is_valid_def)
  next
    case (Some i)
    with assms p l show ?thesis
      by (simp add: insert_element_def get_element_key_def is_valid_def)
  qed
qed

lemma assign_key_object:
  "json_value_assign_key (JObject ob) key x =
     Inr (JObject (case find_key ob key of
                     Some i \<Rightarrow> ob[i := (key, x)]
                   | None \<Rightarrow> ob @ [(key, x)]))"
proof (cases "find_key ob key")
  case None
  then show ?thesis
    by (simp add: json_value_assign_key_def json_value_index_key_def json_value_find_def
        json_value_get_object_def)
next
  case (Some i)
  then have "i < length ob" "fst (ob ! i) = key" by (simp_all add: find_key_Some_iff)
  with Some show ?thesis
    by (simp add: json_value_assign_key_def json_value_index_key_def json_value_find_def
        json_value_get_object_def)
qed

section \<open>Facts about the conversions\<close>

text \<open>Paths that extend one another, and writes below a node.\<close>

lemma node_at_append:
  "node_at v (p @ q) = (case node_at v p of None \<Rightarrow> None | Some w \<Rightarrow> node_at w q)"
  by (induction v p rule: node_at.induct) auto

lemma replace_at_append:
  "node_at v p = Some w \<Longrightarrow> replace_at v (p @ q) x = replace_at v p (replace_at w q x)"
  by (induction v p arbitrary: w rule: node_at.induct) (auto split: if_splits)

lemma replace_at_twice:
  "replace_at (replace_at v p x) p y = replace_at v p y"
  by (induction v p x rule: replace_at.induct) (auto split: if_splits)

lemma replace_at_same:
  "node_at v p = Some w \<Longrightarrow> replace_at v p w = v"
  by (induction v p arbitrary: w rule: node_at.induct) (auto split: if_splits)

lemma store_node_same:
  "deref st p = Some w \<Longrightarrow> store_node st p w = st"
  by (auto simp: deref_def store_node_def replace_at_same fun_upd_idem_iff split: option.splits)

lemma store_store:
  "store_node (store_node st p x) p y = store_node st p y"
  by (auto simp: store_node_def replace_at_twice split: option.splits)

lemma deref_elem_array:
  "deref st p = Some (JArray a) \<Longrightarrow> i < length a \<Longrightarrow> deref st (elem_ptr p i) = Some (a ! i)"
  by (auto simp: deref_def elem_ptr_def node_at_append split: option.splits)

lemma store_elem_array:
  "deref st p = Some (JArray a) \<Longrightarrow> i < length a \<Longrightarrow>
   store_node st (elem_ptr p i) x = store_node st p (JArray (a[i := x]))"
  by (auto simp: deref_def store_node_def elem_ptr_def replace_at_append split: option.splits)

lemma deref_load: "deref st p = Some v \<Longrightarrow> load_node st p = v"
  by (simp add: load_node_def)

lemma set_scalar_valid:
  assumes "value js = Some p" "deref st p \<noteq> None"
  shows "set_integer st js a = (True, store_node st p (JInteger a))"
    and "set_unsigned st js a = (True, store_node st p (JUnsigned a))"
    and "set_real st js r = (True, store_node st p (JReal r))"
    and "set_boolean st js b = (True, store_node st p (JBoolean b))"
    and "set_string st js s = (True, store_node st p (JString s))"
  using assms
  by (simp_all add: set_integer_def set_unsigned_def set_real_def set_boolean_def
      set_string_def set_type_def store_store)

lemma set_array_size_valid:
  assumes "value js = Some p" "deref st p \<noteq> None"
  shows "set_array_size st js n = (True, store_node st p (JArray (replicate n JNull)))"
proof -
  have "load_node (store_node st p (JArray [])) p = JArray []"
    using assms by (simp add: load_store_same)
  with assms show ?thesis
    by (simp add: set_array_size_def set_type_def resize_array_def is_array_def get_type_def
        store_store vector_resize_def)
qed

lemma get_element_idx_array:
  assumes "value js = Some p" "deref st p = Some (JArray a)" "i < length a"
  shows "get_element_idx st js i = \<lparr>value = Some (elem_ptr p i), root = root js\<rparr>"
  using assms
  by (simp add: get_element_idx_def is_array_def array_size_def get_type_def deref_load)

lemma set_value_effect_aux:
  fixes c :: "('d::zero, 'f) casts"
  shows "(\<forall>p. value js = Some p \<longrightarrow> deref st p \<noteq> None \<longrightarrow>
            set_value c st js v error = (True, store_node st p (json_of_native c v), error))"
    and "(\<forall>p a. value js1 = Some p \<longrightarrow> deref st1 p = Some (JArray a) \<longrightarrow>
            length a = idx1 + length vs1 \<longrightarrow>
            set_value_vector_loop c st1 js1 idx1 vs1 =
              (True, store_node st1 p (JArray (take idx1 a @ map (json_of_native c) vs1))))"
    and "(\<forall>p a. value js2 = Some p \<longrightarrow> deref st2 p = Some (JArray a) \<longrightarrow>
            length a = idx2 + length vs2 \<longrightarrow>
            set_value_array_loop c st2 js2 idx2 vs2 error2 =
              (True, store_node st2 p (JArray (take idx2 a @ map (json_of_native c) vs2)),
               error2))"
proof (induction c st js v error and c st1 js1 idx1 vs1 and c st2 js2 idx2 vs2 error2
    rule: set_value_set_value_vector_loop_set_value_array_loop.induct)
  case (1 c st js a error)
  then show ?case by (simp add: set_value_int64_def set_scalar_valid)
next
  case (2 c st js a error)
  then show ?case by (simp add: set_value_int32_def set_value_int64_def set_scalar_valid)
next
  case (3 c st js a error)
  then show ?case by (simp add: set_value_uint64_def set_scalar_valid)
next
  case (4 c st js a error)
  then show ?case by (simp add: set_value_uint32_def set_value_uint64_def set_scalar_valid)
next
  case (5 c st js a error)
  then show ?case by (simp add: set_value_double_def set_scalar_valid)
next
  case (6 c st js a error)
  then show ?case by (simp add: set_value_float_def set_value_double_def set_scalar_valid)
next
  case (7 c st js a error)
  then show ?case by (simp add: set_value_bool_def set_scalar_valid)
next
  case (8 c st js a error)
  then show ?case by (simp add: set_value_string_def set_scalar_valid)
next
  case (9 c st js xs error)
  show ?case
  proof (intro allI impI)
    fix p assume p: "value js = Some p" and d: "deref st p \<noteq> None"
    let ?st1 = "store_node st p (JArray (replicate (length xs) JNull))"
    have s: "set_array_size st js (length xs) = (True, ?st1)"
      using p d by (rule set_array_size_valid)
    have d1: "deref ?st1 p = Some (JArray (replicate (length xs) JNull))"
      using d by (simp add: deref_store_same)
    from 9 [OF s [symmetric]] p d1
    have "set_value_vector_loop c ?st1 js 0 xs =
        (True, store_node ?st1 p (JArray (map (json_of_native c) xs)))"
      by simp
    then show "set_value c st js (N_vector xs) error =
        (True, store_node st p (json_of_native c (N_vector xs)), error)"
      by (simp add: s store_store)
  qed
next
  case (10 c st js xs error)
  show ?case
  proof (intro allI impI)
    fix p assume p: "value js = Some p" and d: "deref st p \<noteq> None"
    let ?st1 = "store_node st p (JArray (replicate (length xs) JNull))"
    have s: "set_array_size st js (length xs) = (True, ?st1)"
      using p d by (rule set_array_size_valid)
    have d1: "deref ?st1 p = Some (JArray (replicate (length xs) JNull))"
      using d by (simp add: deref_store_same)
    from 10 [OF s [symmetric]] p d1
    have "set_value_array_loop c ?st1 js 0 xs error =
        (True, store_node ?st1 p (JArray (map (json_of_native c) xs)), error)"
      by simp
    then show "set_value c st js (N_array xs) error =
        (True, store_node st p (json_of_native c (N_array xs)), error)"
      by (simp add: s store_store)
  qed
next
  case (11 c st js idx)
  then show ?case by (simp add: store_node_same)
next
  case (12 c st js idx v vs)
  show ?case
  proof (intro allI impI)
    fix p a assume p: "value js = Some p" and d: "deref st p = Some (JArray a)"
      and len: "length a = idx + length (v # vs)"
    then have i: "idx < length a" by simp
    let ?ejs = "\<lparr>value = Some (elem_ptr p idx), root = root js\<rparr>"
    let ?st' = "store_node st p (JArray (a[idx := json_of_native c v]))"
    have ge: "get_element_idx st js idx = ?ejs"
      using p d i by (rule get_element_idx_array)
    have de: "deref st (elem_ptr p idx) \<noteq> None"
      using d i by (simp add: deref_elem_array)
    from 12(1) ge de have sv: "set_value c st ?ejs v [] =
        (True, store_node st (elem_ptr p idx) (json_of_native c v), [])"
      by simp
    then have sv': "set_value c st ?ejs v [] = (True, ?st', [])"
      using d i by (simp add: store_elem_array)
    have d': "deref ?st' p = Some (JArray (a[idx := json_of_native c v]))"
      using d by (simp add: deref_store_same)
    from 12(2) [of True "(?st', [])" ?st' "[]"] sv' ge p d' len
    have "set_value_vector_loop c ?st' js (Suc idx) vs =
        (True, store_node ?st' p
           (JArray (take (Suc idx) (a[idx := json_of_native c v]) @ map (json_of_native c) vs)))"
      by simp
    moreover have "take (Suc idx) (a[idx := json_of_native c v]) = take idx a @ [json_of_native c v]"
      using i by (simp add: take_Suc_conv_app_nth)
    ultimately show "set_value_vector_loop c st js idx (v # vs) =
        (True, store_node st p (JArray (take idx a @ map (json_of_native c) (v # vs))))"
      using sv' ge by (simp add: store_store)
  qed
next
  case (13 c st js idx error)
  then show ?case by (simp add: store_node_same)
next
  case (14 c st js idx v vs error)
  show ?case
  proof (intro allI impI)
    fix p a assume p: "value js = Some p" and d: "deref st p = Some (JArray a)"
      and len: "length a = idx + length (v # vs)"
    then have i: "idx < length a" by simp
    let ?ejs = "\<lparr>value = Some (elem_ptr p idx), root = root js\<rparr>"
    let ?st' = "store_node st p (JArray (a[idx := json_of_native c v]))"
    have ge: "get_element_idx st js idx = ?ejs"
      using p d i by (rule get_element_idx_array)
    have de: "deref st (elem_ptr p idx) \<noteq> None"
      using d i by (simp add: deref_elem_array)
    from 14(1) ge de have sv: "set_value c st ?ejs v error =
        (True, store_node st (elem_ptr p idx) (json_of_native c v), error)"
      by simp
    then have sv': "set_value c st ?ejs v error = (True, ?st', error)"
      using d i by (simp add: store_elem_array)
    have d': "deref ?st' p = Some (JArray (a[idx := json_of_native c v]))"
      using d by (simp add: deref_store_same)
    from 14(2) [of True "(?st', error)" ?st' error] sv' ge p d' len
    have "set_value_array_loop c ?st' js (Suc idx) vs error =
        (True, store_node ?st' p
           (JArray (take (Suc idx) (a[idx := json_of_native c v]) @ map (json_of_native c) vs)),
         error)"
      by simp
    moreover have "take (Suc idx) (a[idx := json_of_native c v]) = take idx a @ [json_of_native c v]"
      using i by (simp add: take_Suc_conv_app_nth)
    ultimately show "set_value_array_loop c st js idx (v # vs) error =
        (True, store_node st p (JArray (take idx a @ map (json_of_native c) (v # vs))), error)"
      using sv' ge by (simp add: store_store)
  qed
qed

lemma set_value_effect:
  fixes c :: "('d::zero, 'f) casts"
  assumes "value js = Some p" and "deref st p \<noteq> None"
  shows "set_value c st js v error = (True, store_node st p (json_of_native c v), error)"
  using set_value_effect_aux(1) [of js st c v error] assms by blast

text \<open>
  Narrowing a widened 32-bit integer: \<^verbatim>\<open>(int32_t)(int64_t)x\<close> and
  \<^verbatim>\<open>(uint32_t)(uint64_t)x\<close> give \<open>x\<close> back.
\<close>

lemma ucast_scast_32_64: "(ucast (scast (a :: 32 word) :: 64 word) :: 32 word) = a"
  by (rule bit_word_eqI) (auto simp: bit_simps)

lemma ucast_ucast_32_64: "(ucast (ucast (a :: 32 word) :: 64 word) :: 32 word) = a"
  by (rule bit_word_eqI) (auto simp: bit_simps)

lemma has_type_default: "has_type (default_native t :: ('d::zero, 'f::zero) native) t"
  by (induction t) (simp_all add: list_all_length)

lemma get_value_vector_loop_all:
  "length views = length xs \<Longrightarrow>
   (\<forall>i < length xs. get (views ! i) dflt = (True, xs ! i)) \<Longrightarrow>
   get_value_vector_loop get dflt views acc = (True, acc @ xs)"
proof (induction views xs arbitrary: acc rule: list_induct2)
  case Nil
  then show ?case by simp
next
  case (Cons ejs views x xs)
  from Cons.prems have h: "get ejs dflt = (True, x)" by auto
  from Cons.prems have "\<forall>i < length xs. get (views ! i) dflt = (True, xs ! i)" by auto
  from Cons.IH [OF this, of "acc @ [x]"] h show ?case by simp
qed

lemma get_value_array_loop_all:
  "length ys = n \<Longrightarrow> length xs = n \<Longrightarrow> k \<le> n \<Longrightarrow>
   (\<forall>i. k \<le> i \<and> i < n \<longrightarrow> get (get_element_idx st js i) (ys ! i) = (True, xs ! i)) \<Longrightarrow>
   get_value_array_loop get st js [k ..< n] ys = (True, take k ys @ drop k xs)"
proof (induction "n - k" arbitrary: k ys)
  case 0
  then show ?case by simp
next
  case (Suc m)
  then have kn: "k < n" by simp
  then have u: "[k ..< n] = k # [Suc k ..< n]" by (simp add: upt_conv_Cons)
  from Suc.prems kn have g: "get (get_element_idx st js k) (ys ! k) = (True, xs ! k)" by simp
  let ?ys = "ys[k := xs ! k]"
  have m: "m = n - Suc k" using Suc.hyps(2) by simp
  have l: "length ?ys = n" using Suc.prems by simp
  have a: "\<forall>i. Suc k \<le> i \<and> i < n \<longrightarrow> get (get_element_idx st js i) (?ys ! i) = (True, xs ! i)"
    using Suc.prems by simp
  from Suc.hyps(1) [OF m l Suc.prems(2) _ a] kn
  have "get_value_array_loop get st js [Suc k ..< n] ?ys = (True, take (Suc k) ?ys @ drop (Suc k) xs)"
    by simp
  moreover have "take (Suc k) ?ys @ drop (Suc k) xs = take k ys @ drop k xs"
    using kn Suc.prems(1,2) by (simp add: take_Suc_conv_app_nth Cons_nth_drop_Suc)
  ultimately show ?case using g by (simp add: u)
qed

lemma view_kind:
  assumes "value js = Some p" "deref st p = Some v"
  shows "get_type st js = json_value_type v" "load_node st (the (value js)) = v"
  using assms by (simp_all add: get_type_def deref_load)

lemma get_value_reads:
  fixes c :: "('d::zero, 'f::zero) casts"
  assumes ex: "\<forall>a. float_of_double c (double_of_float c a) = a"
  shows "has_type v t \<Longrightarrow> has_type x0 t \<Longrightarrow> value js = Some p \<Longrightarrow>
         deref st p = Some (json_of_native c v) \<Longrightarrow>
         get_value c t st js x0 error = (True, v, error)"
proof (induction t arbitrary: v x0 js p error)
  case T_int64
  then show ?case
    by (cases v) (simp_all add: get_value_int64_def get_integral_int64_def is_integer_def
        is_unsigned_def view_kind deref_load)
next
  case T_int32
  then show ?case
    by (cases v) (simp_all add: get_value_int32_def get_value_int64_def get_integral_int64_def
        is_integer_def is_unsigned_def view_kind deref_load ucast_scast_32_64)
next
  case T_uint64
  then show ?case
    by (cases v) (simp_all add: get_value_uint64_def get_integral_uint64_def is_integer_def
        is_unsigned_def view_kind deref_load)
next
  case T_uint32
  then show ?case
    by (cases v) (simp_all add: get_value_uint32_def get_value_uint64_def
        get_integral_uint64_def is_integer_def is_unsigned_def view_kind deref_load ucast_ucast_32_64)
next
  case T_double
  then show ?case
    by (cases v) (simp_all add: get_value_double_def get_number_def is_real_def view_kind deref_load)
next
  case T_float
  then show ?case
    using ex
    by (cases v) (simp_all add: get_value_float_def get_value_double_def get_number_def
        is_real_def view_kind deref_load)
next
  case T_bool
  then show ?case
    by (cases v) (simp_all add: get_value_bool_def get_boolean_def is_boolean_def view_kind deref_load)
next
  case T_string
  then show ?case
    by (cases v) (simp_all add: get_value_string_def get_string_def is_string_def view_kind deref_load)
next
  case (T_vector t)
  from T_vector.prems(1) obtain xs where v: "v = N_vector xs"
    and xs: "\<forall>i < length xs. has_type (xs ! i) t"
    by (cases v) (auto simp: list_all_length)
  let ?a = "map (json_of_native c) xs"
  have d: "deref st p = Some (JArray ?a)" using T_vector.prems(4) v by simp
  have arr: "is_array st js" and ld: "load_node st (the (value js)) = JArray ?a"
    using view_kind [OF T_vector.prems(3) d] by (simp_all add: is_array_def)
  let ?views = "map (\<lambda>i. \<lparr>value = Some (elem_ptr p i), root = root js\<rparr>) [0 ..< length xs]"
  have it: "iterate_array st js = ?views"
    using arr ld T_vector.prems(3) by (simp add: iterate_array_def)
  have el: "get_value_noerror (get_value c t st) (?views ! i) (default_native t) = (True, xs ! i)"
    if "i < length xs" for i
  proof -
    have "deref st (elem_ptr p i) = Some (json_of_native c (xs ! i))"
      using deref_elem_array [OF d, of i] that by simp
    from T_vector.IH [OF _ has_type_default _ this, of "\<lparr>value = Some (elem_ptr p i), root = root js\<rparr>" "[]"]
      xs that
    show ?thesis by (simp add: get_value_noerror_def)
  qed
  have "get_value_vector_loop (get_value_noerror (get_value c t st)) (default_native t) ?views []
          = (True, [] @ xs)"
    by (rule get_value_vector_loop_all) (simp_all add: el del: nth_map)
  then show ?case using arr it v by simp
next
  case (T_array t n)
  from T_array.prems(1) obtain xs where v: "v = N_array xs" and n: "length xs = n"
    and xs: "\<forall>i < length xs. has_type (xs ! i) t"
    by (cases v) (auto simp: list_all_length)
  from T_array.prems(2) obtain ys where x0: "x0 = N_array ys" and ny: "length ys = n"
    and ys: "\<forall>i < length ys. has_type (ys ! i) t"
    by (cases x0) (auto simp: list_all_length)
  let ?a = "map (json_of_native c) xs"
  have d: "deref st p = Some (JArray ?a)" using T_array.prems(4) v by simp
  have arr: "is_array st js" and ld: "load_node st (the (value js)) = JArray ?a"
    using view_kind [OF T_array.prems(3) d] by (simp_all add: is_array_def)
  have sz: "array_size st js = n" "json_size st js = n"
    using arr ld n by (simp_all add: array_size_def json_size_def)
  have el: "get_value_noerror (get_value c t st) (get_element_idx st js i) (ys ! i) = (True, xs ! i)"
    if "i < n" for i
  proof -
    have ge: "get_element_idx st js i = \<lparr>value = Some (elem_ptr p i), root = root js\<rparr>"
      using get_element_idx_array [OF T_array.prems(3) d, of i] that n by simp
    have "deref st (elem_ptr p i) = Some (json_of_native c (xs ! i))"
      using deref_elem_array [OF d, of i] that n by simp
    from T_array.IH [OF _ _ _ this, of "ys ! i" "\<lparr>value = Some (elem_ptr p i), root = root js\<rparr>" "[]"]
      xs ys that n ny
    show ?thesis by (simp add: get_value_noerror_def ge)
  qed
  have "get_value_array_loop (get_value_noerror (get_value c t st)) st js [0 ..< n] ys
          = (True, take 0 ys @ drop 0 xs)"
    by (rule get_value_array_loop_all) (simp_all add: ny n el)
  then show ?case using arr sz v x0 by simp
qed

text \<open>
  In the \<^verbatim>\<open>vector\<close> and \<^verbatim>\<open>array\<close> overloads of \<^verbatim>\<open>get_value\<close> and in the
  \<^verbatim>\<open>vector\<close> overload of \<^verbatim>\<open>set_value\<close> the element conversions run through the
  two-argument overload: once the target is an array, the caller's error string comes back
  as it went in, whether the elements convert or not.
\<close>

lemma get_value_vector_error_unchanged:
  "is_array st js \<Longrightarrow> snd (snd (get_value c (T_vector t) st js x error)) = error"
  by (simp split: prod.splits)

lemma get_value_array_error_unchanged:
  "is_array st js \<Longrightarrow> array_size st js = n \<Longrightarrow>
   snd (snd (get_value c (T_array t n) st js x error)) = error"
  by (simp split: prod.splits)

lemma set_value_vector_error_unchanged:
  "fst (set_array_size st js (length xs)) \<Longrightarrow>
   snd (snd (set_value c st js (N_vector xs) error)) = error"
  by (cases "set_array_size st js (length xs)") (simp split: prod.splits)

section \<open>The claims\<close>

subsection \<open>C1: the path of a view\<close>

text \<open>
  Claim C1, evaluated on the document \<^verbatim>\<open>{"a":[1,2,{"b":3}]}\<close>: for the view whose
  target is the node holding 3, \<^verbatim>\<open>compute_path\<close> returns \<^verbatim>\<open>/a/0/b\<close>, where the
  claim has \<^verbatim>\<open>/a/2/b\<close>: the array loop of \<^verbatim>\<open>_compute_path\<close> never advances
  \<^verbatim>\<open>idx\<close>. For the root view it returns \<^verbatim>\<open>/\<close>, and for an invalid view and for
  a target in another variable it returns the empty string, as claimed.
\<close>

theorem C1_array_index_always_zero:
  "compute_path
     [0 \<mapsto> (JObject [(''a'', JArray [JInteger 1, JInteger 2, JObject [(''b'', JInteger 3)]])]
              :: int json_value)]
     \<lparr>value = Some (0, [0, 2, 0]), root = Some (0, [])\<rparr> = ''/a/0/b'' \<and>
   compute_path
     [0 \<mapsto> (JObject [(''a'', JArray [JInteger 1, JInteger 2, JObject [(''b'', JInteger 3)]])]
              :: int json_value)]
     (get_root 0) = ''/'' \<and>
   compute_path
     [0 \<mapsto> (JObject [(''a'', JArray [JInteger 1, JInteger 2, JObject [(''b'', JInteger 3)]])]
              :: int json_value)]
     \<lparr>value = None, root = Some (0, [])\<rparr> = '''' \<and>
   compute_path
     [0 \<mapsto> (JObject [(''a'', JArray [JInteger 1, JInteger 2, JObject [(''b'', JInteger 3)]])]
              :: int json_value), 1 \<mapsto> JInteger 3]
     \<lparr>value = Some (1, []), root = Some (0, [])\<rparr> = ''''"
  by (simp add: compute_path_def get_root_def load_node_def deref_def elem_ptr_def
      to_string.simps)

subsection \<open>C2: the error message of a failing element\<close>

text \<open>
  Claim C2, evaluated on the array \<^verbatim>\<open>["x"]\<close> read as \<^verbatim>\<open>vector<int64_t>\<close> and as
  \<^verbatim>\<open>array<int64_t, 1>\<close> with the error string \<^verbatim>\<open>"unset"\<close>: the conversion of
  element 0 fails with the message \<^verbatim>\<open>integer expected at /0\<close>; both composite
  conversions return false, and the caller's error string is still \<^verbatim>\<open>"unset"\<close>,
  where the claim has the message of the failing element.
\<close>

theorem C2_element_error_dropped:
  "get_value int_casts T_int64 [0 \<mapsto> (JArray [JString ''x''] :: int json_value)]
     \<lparr>value = Some (0, [0]), root = Some (0, [])\<rparr> (N_int64 0) ''unset'' =
     (False, N_int64 0, ''integer expected at /0'') \<and>
   get_value int_casts (T_vector T_int64) [0 \<mapsto> (JArray [JString ''x''] :: int json_value)]
     (get_root 0) (N_vector []) ''unset'' = (False, N_vector [N_int64 0], ''unset'') \<and>
   get_value int_casts (T_array T_int64 1) [0 \<mapsto> (JArray [JString ''x''] :: int json_value)]
     (get_root 0) (N_array [N_int64 0]) ''unset'' = (False, N_array [N_int64 0], ''unset'')"
  by (simp add: get_value_int64_def get_integral_int64_def is_kind_defs get_type_def
      load_node_def deref_def get_root_def format_error_def compute_path_def elem_ptr_def
      to_string.simps iterate_array_def get_value_noerror_def array_size_def json_size_def
      get_element_idx_def)

subsection \<open>C3: the sized kinds of a value\<close>

text \<open>
  Claim C3, as the code has it: on a value of kind string, array, object or binary,
  \<^verbatim>\<open>size()\<close>, \<^verbatim>\<open>empty()\<close> and \<^verbatim>\<open>reserve()\<close> succeed; \<^verbatim>\<open>resize()\<close> succeeds
  on the kinds string, array and binary only, and the value then has the requested size;
  on every other kind the operation throws \<^verbatim>\<open>json_error{"bad json type"}\<close>, so
  \<^verbatim>\<open>resize()\<close> throws on an object as well.
\<close>

theorem C3_sized_kinds:
  "(json_value_type v \<in> {string_k, array, object, binary} \<longrightarrow>
      (\<exists>m. json_value_size v = Inr m \<and> json_value_empty v = Inr (m = 0)) \<and>
      json_value_reserve v n = Inr v) \<and>
   (json_value_type v \<in> {string_k, array, binary} \<longrightarrow>
      (\<exists>v'. json_value_resize v n = Inr v' \<and> json_value_type v' = json_value_type v \<and>
            json_value_size v' = Inr n)) \<and>
   (json_value_type v \<notin> {string_k, array, object, binary} \<longrightarrow>
      json_value_size v = Inl (json_error ''bad json type'') \<and>
      json_value_empty v = Inl (json_error ''bad json type'') \<and>
      json_value_reserve v n = Inl (json_error ''bad json type'')) \<and>
   (json_value_type v \<notin> {string_k, array, binary} \<longrightarrow>
      json_value_resize v n = Inl (json_error ''bad json type''))"
  by (cases v)
     (simp_all add: json_value_size_def json_value_empty_def json_value_reserve_def
        json_value_resize_def json_value_get_defs vector_resize_def)

theorem C3_sized_kinds_witness:
  "json_value_size (JArray [JNull, JNull] :: int json_value) = Inr 2 \<and>
   json_value_empty (JArray [JNull, JNull] :: int json_value) = Inr False \<and>
   json_value_reserve (JArray [JNull, JNull] :: int json_value) 8 = Inr (JArray [JNull, JNull]) \<and>
   json_value_resize (JArray [JNull, JNull] :: int json_value) 3 =
     Inr (JArray [JNull, JNull, JNull]) \<and>
   json_value_size (JBoolean True :: int json_value) = Inl (json_error ''bad json type'') \<and>
   json_value_resize (JBoolean True :: int json_value) 3 = Inl (json_error ''bad json type'')"
proof -
  have a: "json_value_type (JArray [JNull, JNull] :: int json_value)
             \<in> {string_k, array, object, binary}"
    and b: "json_value_type (JArray [JNull, JNull] :: int json_value) \<in> {string_k, array, binary}"
    and c: "json_value_type (JBoolean True :: int json_value) \<notin> {string_k, array, object, binary}"
    and d: "json_value_type (JBoolean True :: int json_value) \<notin> {string_k, array, binary}"
    by simp_all
  have r: "json_value_resize (JArray [JNull, JNull] :: int json_value) 3 =
             Inr (JArray [JNull, JNull, JNull])"
    by (simp add: json_value_resize_def json_value_get_defs vector_resize_def numeral_3_eq_3)
  from C3_sized_kinds [of "JArray [JNull, JNull] :: int json_value" 8] a
  have 1: "json_value_size (JArray [JNull, JNull] :: int json_value) = Inr 2 \<and>
     json_value_empty (JArray [JNull, JNull] :: int json_value) = Inr False \<and>
     json_value_reserve (JArray [JNull, JNull] :: int json_value) 8 = Inr (JArray [JNull, JNull])"
    by (auto simp: json_value_size_def json_value_get_defs)
  from C3_sized_kinds [of "JBoolean True :: int json_value" 3] c d
  have 2: "json_value_size (JBoolean True :: int json_value) = Inl (json_error ''bad json type'') \<and>
     json_value_resize (JBoolean True :: int json_value) 3 = Inl (json_error ''bad json type'')"
    by blast
  from 1 2 r show ?thesis by blast
qed

text \<open>
  The claim as stated lets \<^verbatim>\<open>resize()\<close> succeed on all four sized kinds. The
  \<^verbatim>\<open>switch\<close> of \<^verbatim>\<open>json_value::resize\<close> has no case for objects: on an object with one
  pair it throws.
\<close>

theorem C3_resize_object_throws:
  "json_value_type (JObject [(''k'', JNull)] :: int json_value) = object \<and>
   json_value_resize (JObject [(''k'', JNull)] :: int json_value) 1 =
     Inl (json_error ''bad json type'')"
  by (simp add: json_value_resize_def)

subsection \<open>C4: type queries on an invalid view\<close>

text \<open>
  Claim C4, as the code has it: for every invalid view (\<^verbatim>\<open>js.value == nullptr\<close>),
  \<^verbatim>\<open>get_type\<close> returns the null kind and every \<^verbatim>\<open>is_*\<close> predicate returns false,
  \<^verbatim>\<open>is_null\<close> included, because \<^verbatim>\<open>is_null\<close> is
  \<^verbatim>\<open>is_valid(js) && get_type(js) == json_type::null\<close>.
\<close>

theorem C4_invalid_view_kind:
  assumes "value js = None"
  shows "get_type st js = null \<and> \<not> is_null st js \<and> \<not> is_integer st js \<and>
         \<not> is_unsigned st js \<and> \<not> is_real st js \<and> \<not> is_integral st js \<and>
         \<not> is_number st js \<and> \<not> is_boolean st js \<and> \<not> is_string st js \<and>
         \<not> is_array st js \<and> \<not> is_object st js \<and> \<not> is_binary st js"
  using assms by (simp add: get_type_def is_kind_defs)

theorem C4_invalid_view_kind_witness:
  "value \<lparr>value = None, root = Some (0, [])\<rparr> = None \<and>
   get_type [0 \<mapsto> JInteger 7 :: int json_value] \<lparr>value = None, root = Some (0, [])\<rparr> = null \<and>
   \<not> is_null [0 \<mapsto> JInteger 7 :: int json_value] \<lparr>value = None, root = Some (0, [])\<rparr> \<and>
   \<not> is_integer [0 \<mapsto> JInteger 7 :: int json_value] \<lparr>value = None, root = Some (0, [])\<rparr>"
  using C4_invalid_view_kind [of "\<lparr>value = None, root = Some (0, [])\<rparr>"
      "[0 \<mapsto> JInteger 7 :: int json_value]"]
  by simp

text \<open>
  The claim as stated says that \<^verbatim>\<open>is_null\<close> returns true on an invalid view. On the
  invalid view with both pointers null, \<^verbatim>\<open>get_type\<close> is null and \<^verbatim>\<open>is_null\<close> is
  false.
\<close>

theorem C4_invalid_view_is_null_false:
  "get_type (Map.empty :: int json_store) \<lparr>value = None, root = None\<rparr> = null \<and>
   \<not> is_null (Map.empty :: int json_store) \<lparr>value = None, root = None\<rparr>"
  by (simp add: get_type_def is_null_def is_valid_def)

subsection \<open>C5: the kind after set\_type\<close>

text \<open>
  Claim C5: for every value and every kind \<open>k\<close>, after \<^verbatim>\<open>set_type(k)\<close> the kind is
  \<open>k\<close>, the kind predicate of \<open>k\<close> is true and the predicates of the eight other kinds
  are false, and the payload is the zero or empty payload of \<open>k\<close> (read through the
  checked accessors). For every valid view (its target is a node of the store),
  \<^verbatim>\<open>set_type(js, k)\<close> returns true and afterwards the same holds for the view: the
  kind and the nine kind predicates, and the target node is the one the member function
  installs. The two predicates of the view layer that span several kinds follow the
  kind as well: \<^verbatim>\<open>is_integral\<close> holds exactly for integer and unsigned,
  \<^verbatim>\<open>is_number\<close> exactly for integer, unsigned and real.
\<close>

theorem C5_set_type:
  assumes "value js = Some p" and "deref st p \<noteq> None"
  shows "json_value_type (json_value_set_type k v) = k \<and>
         json_value_is_null (json_value_set_type k v) = (k = null) \<and>
         json_value_is_integer (json_value_set_type k v) = (k = integer) \<and>
         json_value_is_unsigned (json_value_set_type k v) = (k = unsigned_k) \<and>
         json_value_is_real (json_value_set_type k v) = (k = real) \<and>
         json_value_is_bool (json_value_set_type k v) = (k = boolean) \<and>
         json_value_is_string (json_value_set_type k v) = (k = string_k) \<and>
         json_value_is_array (json_value_set_type k v) = (k = array) \<and>
         json_value_is_object (json_value_set_type k v) = (k = object) \<and>
         json_value_is_binary (json_value_set_type k v) = (k = binary) \<and>
         (k = null \<longrightarrow> json_value_set_type k v = JNull) \<and>
         (k = integer \<longrightarrow> json_value_get_integer (json_value_set_type k v) = Inr 0) \<and>
         (k = unsigned_k \<longrightarrow> json_value_get_unsigned (json_value_set_type k v) = Inr 0) \<and>
         (k = real \<longrightarrow> json_value_get_real (json_value_set_type k v) = Inr 0) \<and>
         (k = boolean \<longrightarrow> json_value_get_boolean (json_value_set_type k v) = Inr False) \<and>
         (k = string_k \<longrightarrow> json_value_get_string (json_value_set_type k v) = Inr []) \<and>
         (k = array \<longrightarrow> json_value_get_array (json_value_set_type k v) = Inr []) \<and>
         (k = object \<longrightarrow> json_value_get_object (json_value_set_type k v) = Inr []) \<and>
         (k = binary \<longrightarrow> json_value_get_binary (json_value_set_type k v) = Inr []) \<and>
         fst (set_type st js k) \<and>
         get_type (snd (set_type st js k)) js = k \<and>
         is_null (snd (set_type st js k)) js = (k = null) \<and>
         is_integer (snd (set_type st js k)) js = (k = integer) \<and>
         is_unsigned (snd (set_type st js k)) js = (k = unsigned_k) \<and>
         is_real (snd (set_type st js k)) js = (k = real) \<and>
         is_boolean (snd (set_type st js k)) js = (k = boolean) \<and>
         is_string (snd (set_type st js k)) js = (k = string_k) \<and>
         is_array (snd (set_type st js k)) js = (k = array) \<and>
         is_object (snd (set_type st js k)) js = (k = object) \<and>
         is_binary (snd (set_type st js k)) js = (k = binary) \<and>
         is_integral (snd (set_type st js k)) js = (k = integer \<or> k = unsigned_k) \<and>
         is_number (snd (set_type st js k)) js = (k = integer \<or> k = unsigned_k \<or> k = real) \<and>
         load_node (snd (set_type st js k)) p = json_value_set_type k v"
proof -
  have ty: "json_value_type (json_value_set_type k v) = k"
    by (cases k) (simp_all add: json_value_set_type_def)
  have pay: "(k = null \<longrightarrow> json_value_set_type k v = JNull) \<and>
         (k = integer \<longrightarrow> json_value_get_integer (json_value_set_type k v) = Inr 0) \<and>
         (k = unsigned_k \<longrightarrow> json_value_get_unsigned (json_value_set_type k v) = Inr 0) \<and>
         (k = real \<longrightarrow> json_value_get_real (json_value_set_type k v) = Inr 0) \<and>
         (k = boolean \<longrightarrow> json_value_get_boolean (json_value_set_type k v) = Inr False) \<and>
         (k = string_k \<longrightarrow> json_value_get_string (json_value_set_type k v) = Inr []) \<and>
         (k = array \<longrightarrow> json_value_get_array (json_value_set_type k v) = Inr []) \<and>
         (k = object \<longrightarrow> json_value_get_object (json_value_set_type k v) = Inr []) \<and>
         (k = binary \<longrightarrow> json_value_get_binary (json_value_set_type k v) = Inr [])"
    by (simp add: json_value_set_type_def json_value_get_defs)
  have st: "set_type st js k = (True, store_node st p (json_value_set_type k v))"
    using assms by (rule set_type_valid)
  have gt: "get_type (store_node st p (json_value_set_type k v)) js = k"
    using assms by (simp add: get_type_store_same ty)
  have ld: "load_node (store_node st p (json_value_set_type k v)) p = json_value_set_type k v"
    using assms by (simp add: load_store_same)
  have valid: "is_valid js" using assms by (simp add: is_valid_def)
  show ?thesis
    using pay
    by (simp add: st ty gt ld valid json_value_is_defs is_null_def is_integer_def
        is_unsigned_def is_real_def is_boolean_def is_string_def is_array_def is_object_def
        is_binary_def is_integral_def is_number_def)
qed

theorem C5_set_type_witness:
  "json_value_type (json_value_set_type string_k (JArray [JInteger 1] :: int json_value)) = string_k \<and>
   json_value_get_string (json_value_set_type string_k (JArray [JInteger 1] :: int json_value)) = Inr [] \<and>
   fst (set_type [0 \<mapsto> JArray [JInteger 1 :: int json_value]] (get_root 0) string_k) \<and>
   get_type (snd (set_type [0 \<mapsto> JArray [JInteger 1 :: int json_value]] (get_root 0) string_k))
     (get_root 0) = string_k \<and>
   \<not> is_array (snd (set_type [0 \<mapsto> JArray [JInteger 1 :: int json_value]] (get_root 0) string_k))
     (get_root 0)"
proof -
  have a: "value (get_root 0) = Some (0, [])" by (simp add: get_root_def)
  have b: "deref [0 \<mapsto> JArray [JInteger 1 :: int json_value]] (0, []) \<noteq> None"
    by (simp add: deref_def)
  from C5_set_type [OF a b, of string_k "JArray [JInteger 1]"] show ?thesis by simp
qed

subsection \<open>C6: find or insert in an object\<close>

text \<open>
  Claim C6, as the code has it: for every object view \<open>js\<close> and key,
  \<^verbatim>\<open>insert_element(js, key)\<close> called twice yields the same view (the same target node)
  both times, the view is valid, and the second call leaves the store as the first call left
  it, so the object does not grow. On a value of kind object, after
  \<^verbatim>\<open>js[key] = x1; js[key] = x2\<close> the second assignment adds no pair, \<^verbatim>\<open>find(key)\<close>
  returns the first pair with that key, and this pair holds \<open>x2\<close>; when the key occurred
  at most once before the assignments (as in a fresh object), it occurs exactly once
  afterwards.
\<close>

theorem C6_find_or_insert:
  assumes "is_object st js"
  shows "insert_element (snd (insert_element st js key)) js key = insert_element st js key \<and>
         is_valid (fst (insert_element st js key)) \<and>
         object_size (snd (insert_element (snd (insert_element st js key)) js key)) js =
           object_size (snd (insert_element st js key)) js \<and>
         (\<exists>o1 o2 i.
            json_value_assign_key (JObject ob) key x1 = Inr (JObject o1) \<and>
            json_value_assign_key (JObject o1) key x2 = Inr (JObject o2) \<and>
            length o2 = length o1 \<and>
            json_value_find (JObject o2) key = Inr (Some i) \<and>
            i < length o2 \<and> o2 ! i = (key, x2) \<and> (\<forall>j<i. fst (o2 ! j) \<noteq> key) \<and>
            (count_list (map fst ob) key \<le> 1 \<longrightarrow> count_list (map fst o2) key = 1))"
proof -
  define o1 where "o1 = (case find_key ob key of
      Some i \<Rightarrow> ob[i := (key, x1)] | None \<Rightarrow> ob @ [(key, x1)])"
  have a1: "json_value_assign_key (JObject ob) key x1 = Inr (JObject o1)"
    by (simp add: assign_key_object o1_def)
  obtain i where i: "find_key o1 key = Some i" and c1: "count_list (map fst ob) key \<le> 1 \<longrightarrow>
      count_list (map fst o1) key = 1"
  proof (cases "find_key ob key")
    case None
    then have "find_key o1 key = Some (length ob)"
      by (simp add: o1_def find_key_append_new)
    moreover from None have "count_list (map fst ob) key = 0"
      by (simp add: find_key_None_iff count_list_zero_iff)
    then have "count_list (map fst o1) key = 1"
      using None by (simp add: o1_def)
    ultimately show ?thesis using that by blast
  next
    case (Some j)
    then have j: "j < length ob" "fst (ob ! j) = key" by (simp_all add: find_key_Some_iff)
    then have m: "map fst o1 = map fst ob"
      using Some by (simp add: o1_def map_update list_update_same_conv)
    then have f: "find_key o1 key = Some j" using Some find_key_keys [of o1 ob key] by simp
    from j have "ob ! j \<in> set ob" by simp
    then have "fst (ob ! j) \<in> fst ` set ob" by (rule imageI)
    with j have "key \<in> set (map fst ob)" by simp
    then have "count_list (map fst ob) key \<noteq> 0" by (simp add: count_list_zero_iff)
    with m have "count_list (map fst ob) key \<le> 1 \<longrightarrow> count_list (map fst o1) key = 1"
      by auto
    with f show ?thesis using that by blast
  qed
  define o2 where "o2 = o1[i := (key, x2)]"
  from i have il: "i < length o1" "fst (o1 ! i) = key" "\<forall>j<i. fst (o1 ! j) \<noteq> key"
    by (simp_all add: find_key_Some_iff)
  have a2: "json_value_assign_key (JObject o1) key x2 = Inr (JObject o2)"
    by (simp add: assign_key_object i o2_def)
  have m2: "map fst o2 = map fst o1"
    using il by (simp add: o2_def map_update list_update_same_conv)
  have f2: "json_value_find (JObject o2) key = Inr (Some i)"
    using i find_key_keys [OF m2, of key]
    by (simp add: json_value_find_def json_value_get_object_def)
  have e2: "o2 ! i = (key, x2)" "length o2 = length o1"
    using il by (simp_all add: o2_def)
  have n2: "\<forall>j<i. fst (o2 ! j) \<noteq> key"
    using il by (simp add: o2_def)
  have "\<exists>o1 o2 i.
            json_value_assign_key (JObject ob) key x1 = Inr (JObject o1) \<and>
            json_value_assign_key (JObject o1) key x2 = Inr (JObject o2) \<and>
            length o2 = length o1 \<and>
            json_value_find (JObject o2) key = Inr (Some i) \<and>
            i < length o2 \<and> o2 ! i = (key, x2) \<and> (\<forall>j<i. fst (o2 ! j) \<noteq> key) \<and>
            (count_list (map fst ob) key \<le> 1 \<longrightarrow> count_list (map fst o2) key = 1)"
    using a1 a2 e2 f2 il(1) n2 c1 m2 by (intro exI [of _ o1] exI [of _ o2] exI [of _ i]) simp
  moreover from insert_element_twice [OF assms, of key]
  have t1: "insert_element (snd (insert_element st js key)) js key = insert_element st js key"
    and t2: "is_valid (fst (insert_element st js key))"
    by blast+
  have "object_size (snd (insert_element (snd (insert_element st js key)) js key)) js =
           object_size (snd (insert_element st js key)) js"
    by (simp only: t1)
  ultimately show ?thesis using t1 t2 by blast
qed

theorem C6_find_or_insert_witness:
  "is_object [0 \<mapsto> JObject [] :: int json_value] (get_root 0) \<and>
   insert_element [0 \<mapsto> JObject [] :: int json_value] (get_root 0) ''k'' =
     (\<lparr>value = Some (0, [0]), root = Some (0, [])\<rparr>, [0 \<mapsto> JObject [(''k'', JNull)]]) \<and>
   insert_element [0 \<mapsto> JObject [(''k'', JNull)] :: int json_value] (get_root 0) ''k'' =
     (\<lparr>value = Some (0, [0]), root = Some (0, [])\<rparr>, [0 \<mapsto> JObject [(''k'', JNull)]]) \<and>
   json_value_assign_key (JObject [] :: int json_value) ''k'' (json_value_of_int32 1) =
     Inr (JObject [(''k'', JInteger 1)]) \<and>
   json_value_assign_key (JObject [(''k'', JInteger 1)] :: int json_value) ''k''
     (json_value_of_int32 2) = Inr (JObject [(''k'', JInteger 2)]) \<and>
   json_value_find (JObject [(''k'', JInteger 2)] :: int json_value) ''k'' = Inr (Some 0)"
proof -
  let ?st = "[0 \<mapsto> JObject [] :: int json_value]"
  have o: "is_object ?st (get_root 0)"
    by (simp add: is_object_def get_type_def get_root_def load_node_def deref_def)
  have i1: "insert_element ?st (get_root 0) ''k'' =
     (\<lparr>value = Some (0, [0]), root = Some (0, [])\<rparr>, [0 \<mapsto> JObject [(''k'', JNull)]])"
    by (simp add: insert_element_def is_object_def get_type_def get_root_def load_node_def
        deref_def elem_ptr_def store_node_def)
  from C6_find_or_insert [OF o, of "''k''" "[]" "json_value_of_int32 1" "json_value_of_int32 2"]
  have "insert_element [0 \<mapsto> JObject [(''k'', JNull)] :: int json_value] (get_root 0) ''k'' =
     (\<lparr>value = Some (0, [0]), root = Some (0, [])\<rparr>, [0 \<mapsto> JObject [(''k'', JNull)]])"
    apply (simp only: i1 snd_conv)
    apply (erule conjE)
    apply assumption
    done
  moreover have "json_value_assign_key (JObject [] :: int json_value) ''k'' (json_value_of_int32 1) =
     Inr (JObject [(''k'', JInteger 1)])"
    by (simp add: assign_key_object json_value_of_int32_def)
  moreover have "json_value_assign_key (JObject [(''k'', JInteger 1)] :: int json_value) ''k''
     (json_value_of_int32 2) = Inr (JObject [(''k'', JInteger 2)])"
    by (simp add: assign_key_object json_value_of_int32_def)
  moreover have "json_value_find (JObject [(''k'', JInteger 2)] :: int json_value) ''k'' = Inr (Some 0)"
    by (simp add: json_value_find_def json_value_get_object_def)
  ultimately show ?thesis using o i1 by simp
qed

text \<open>
  The claim as stated has a single pair with the key after the two assignments, for every
  object. Keys need not be unique: on an object that already holds two pairs with the key
  \<^verbatim>\<open>k\<close>, the assignments write the first of them and the second pair stays, so the
  object ends with two pairs of that key.
\<close>

theorem C6_duplicate_keys_stay:
  "json_value_assign_key (JObject [(''k'', JInteger 7), (''k'', JInteger 8)] :: int json_value)
     ''k'' (json_value_of_int32 1) =
     Inr (JObject [(''k'', JInteger 1), (''k'', JInteger 8)]) \<and>
   json_value_assign_key (JObject [(''k'', JInteger 1), (''k'', JInteger 8)] :: int json_value)
     ''k'' (json_value_of_int32 2) =
     Inr (JObject [(''k'', JInteger 2), (''k'', JInteger 8)]) \<and>
   count_list (map fst [(''k'', JInteger 2 :: int json_value), (''k'', JInteger 8)]) ''k'' = 2"
  by (simp add: json_value_assign_key_def json_value_index_key_def json_value_find_def
      json_value_get_object_def json_value_of_int32_def)

subsection \<open>C7: the round trip of set\_value and get\_value\<close>

text \<open>
  Claim C7: for every native value \<open>v\<close> of a supported type \<open>t\<close> (the 64- and 32-bit
  signed and unsigned integers, \<^verbatim>\<open>double\<close>, \<^verbatim>\<open>float\<close>, \<^verbatim>\<open>bool\<close>,
  \<^verbatim>\<open>string\<close>, vectors and fixed-size arrays of supported types) and every valid view
  (a fresh one in particular), \<^verbatim>\<open>set_value\<close> returns true and leaves the error string
  as it was, and \<^verbatim>\<open>get_value\<close> at the type \<open>t\<close> on the store it leaves returns true
  and yields \<open>v\<close>, whatever value of type \<open>t\<close> the out-parameter held before. A
  \<^verbatim>\<open>double\<close> is stored and read back as it is; for \<^verbatim>\<open>float\<close> the casts are assumed
  to satisfy \<^verbatim>\<open>(float)(double)x == x\<close>.
\<close>

theorem C7_round_trip:
  fixes c :: "('d::zero, 'f::zero) casts"
  assumes "has_type v t" and "has_type x0 t"
    and "value js = Some p" and "deref st p \<noteq> None"
    and "\<forall>a. float_of_double c (double_of_float c a) = a"
  shows "fst (set_value c st js v error) \<and>
         snd (snd (set_value c st js v error)) = error \<and>
         get_value c t (fst (snd (set_value c st js v error))) js x0 error' = (True, v, error')"
proof -
  have s: "set_value c st js v error = (True, store_node st p (json_of_native c v), error)"
    using assms(3,4) by (rule set_value_effect)
  have d: "deref (store_node st p (json_of_native c v)) p = Some (json_of_native c v)"
    using assms(4) by (rule deref_store_same)
  from get_value_reads [OF assms(5) assms(1) assms(2) assms(3) d]
  show ?thesis by (simp add: s)
qed

theorem C7_round_trip_witness:
  "has_type (N_vector [N_array [N_int32 (- 1), N_int32 7], N_array [N_int32 0, N_int32 2]]
      :: (int, int) native) (T_vector (T_array T_int32 2)) \<and>
   fst (set_value int_casts [0 \<mapsto> JNull] (get_root 0)
      (N_vector [N_array [N_int32 (- 1), N_int32 7], N_array [N_int32 0, N_int32 2]]) '''') \<and>
   get_value int_casts (T_vector (T_array T_int32 2))
      (fst (snd (set_value int_casts [0 \<mapsto> JNull] (get_root 0)
         (N_vector [N_array [N_int32 (- 1), N_int32 7], N_array [N_int32 0, N_int32 2]]) '''')))
      (get_root 0) (N_vector []) '''' =
     (True, N_vector [N_array [N_int32 (- 1), N_int32 7], N_array [N_int32 0, N_int32 2]], '''') \<and>
   get_value int_casts T_float
      (fst (snd (set_value int_casts [0 \<mapsto> JNull] (get_root 0) (N_float 3) '''')))
      (get_root 0) (N_float 0) '''' = (True, N_float 3, '''')"
proof -
  let ?v = "N_vector [N_array [N_int32 (- 1), N_int32 7], N_array [N_int32 0, N_int32 2]]
      :: (int, int) native"
  have t: "has_type ?v (T_vector (T_array T_int32 2))" by simp
  have t0: "has_type (N_vector [] :: (int, int) native) (T_vector (T_array T_int32 2))" by simp
  have f: "has_type (N_float 3 :: (int, int) native) T_float"
    and f0: "has_type (N_float 0 :: (int, int) native) T_float" by simp_all
  have p: "value (get_root 0) = Some (0, [])" by (simp add: get_root_def)
  have d: "deref [0 \<mapsto> JNull :: int json_value] (0, []) \<noteq> None" by (simp add: deref_def)
  have c: "\<forall>a. float_of_double int_casts (double_of_float int_casts a) = a"
    by (simp add: int_casts_def)
  from C7_round_trip [OF t t0 p d c, of "''''" "''''"] C7_round_trip [OF f f0 p d c, of "''''" "''''"] t
  show ?thesis by simp
qed

subsection \<open>C8: numeric widening\<close>

text \<open>
  Claim C8: \<^verbatim>\<open>get_number\<close> returns true exactly on the kinds integer, unsigned and real,
  and then yields the stored real, or the stored integer or unsigned cast to
  \<^verbatim>\<open>double\<close> (a node of kind unsigned holding \<open>u\<close> yields \<^verbatim>\<open>(double)u\<close>);
  \<^verbatim>\<open>get_integral\<close>, in both overloads, returns true exactly on the kinds integer and
  unsigned, and returns false on a node of kind real, leaving the out-parameter as it was.
\<close>

theorem C8_numeric_widening:
  "fst (get_number c st js x) = (get_type st js \<in> {integer, unsigned_k, real}) \<and>
   (get_type st js = real \<longrightarrow>
      get_number c st js x = (True, payload_real (load_node st (the (value js))))) \<and>
   (get_type st js = integer \<longrightarrow>
      get_number c st js x =
        (True, double_of_int64 c (payload_integer (load_node st (the (value js)))))) \<and>
   (get_type st js = unsigned_k \<longrightarrow>
      get_number c st js x =
        (True, double_of_uint64 c (payload_unsigned (load_node st (the (value js)))))) \<and>
   (deref st p = Some (JUnsigned u) \<longrightarrow>
      get_number c st \<lparr>value = Some p, root = r\<rparr> x = (True, double_of_uint64 c u)) \<and>
   fst (get_integral_int64 st js i) = (get_type st js \<in> {integer, unsigned_k}) \<and>
   fst (get_integral_uint64 st js i) = (get_type st js \<in> {integer, unsigned_k}) \<and>
   (get_type st js = real \<longrightarrow>
      get_integral_int64 st js i = (False, i) \<and> get_integral_uint64 st js i = (False, i))"
  by (auto simp: get_number_def get_integral_int64_def get_integral_uint64_def is_kind_defs
      get_type_def load_node_def)

theorem C8_numeric_widening_witness:
  "get_number int_casts [0 \<mapsto> JUnsigned 5 :: int json_value] (get_root 0) 0 = (True, 5) \<and>
   get_integral_int64 [0 \<mapsto> JReal 5 :: int json_value] (get_root 0) 0 = (False, 0) \<and>
   get_integral_uint64 [0 \<mapsto> JReal 5 :: int json_value] (get_root 0) 0 = (False, 0)"
proof -
  let ?c = "int_casts"
  have d: "deref [0 \<mapsto> JUnsigned 5 :: int json_value] (0, []) = Some (JUnsigned 5)"
    by (simp add: deref_def)
  have t: "get_type [0 \<mapsto> JReal 5 :: int json_value] (get_root 0) = real"
    by (simp add: get_type_def get_root_def load_node_def deref_def)
  from C8_numeric_widening [of ?c "[0 \<mapsto> JUnsigned 5]" "get_root 0" 0 "(0, [])" 5 "Some (0, [])" 0] d
  have "get_number ?c [0 \<mapsto> JUnsigned 5 :: int json_value] (get_root 0) 0 = (True, 5)"
    by (simp add: get_root_def int_casts_def)
  moreover
  from C8_numeric_widening [of ?c "[0 \<mapsto> JReal 5]" "get_root 0" 0 "(0, [])" 5 "Some (0, [])" 0] t
  have "get_integral_int64 [0 \<mapsto> JReal 5 :: int json_value] (get_root 0) 0 = (False, 0) \<and>
        get_integral_uint64 [0 \<mapsto> JReal 5 :: int json_value] (get_root 0) 0 = (False, 0)"
    by simp
  ultimately show ?thesis by simp
qed

subsection \<open>C9: out-of-range and missing elements\<close>

text \<open>
  Claim C9: \<^verbatim>\<open>get_element\<close> on an array view with an index that is not below the
  array size, and on an object view with a key that no pair has, returns the invalid view
  (null target, same root). \<^verbatim>\<open>get_value_at\<close> then returns false, leaves the output
  value as it was and sets the error string to the message followed by \<^verbatim>\<open>" at "\<close> and
  the path that \<^verbatim>\<open>compute_path\<close> computes for the view (or by \<^verbatim>\<open>" in json"\<close> when
  that path is empty).
\<close>

theorem C9_missing_element:
  "(is_array st js \<and> \<not> idx < array_size st js \<longrightarrow>
      get_element_idx st js idx = \<lparr>value = None, root = root js\<rparr> \<and>
      \<not> is_valid (get_element_idx st js idx) \<and>
      get_value_at_idx c t st js idx x error =
        (False, x,
         if compute_path st js = []
         then ''index out of range '' @ to_string idx @ '' in json''
         else ''index out of range '' @ to_string idx @ '' at '' @ compute_path st js)) \<and>
   (is_object st js \<and> key \<notin> set (map fst (payload_object (load_node st (the (value js)))))
      \<longrightarrow>
      get_element_key st js key = \<lparr>value = None, root = root js\<rparr> \<and>
      \<not> is_valid (get_element_key st js key) \<and>
      get_value_at_key c t st js key x error =
        (False, x,
         if compute_path st js = []
         then ''missing key '' @ key @ '' in json''
         else ''missing key '' @ key @ '' at '' @ compute_path st js))"
proof -
  have "get_element_idx st js idx = \<lparr>value = None, root = root js\<rparr>"
    if "\<not> idx < array_size st js"
    using that by (simp add: get_element_idx_def)
  moreover have "get_element_key st js key = \<lparr>value = None, root = root js\<rparr>"
    if "key \<notin> set (map fst (payload_object (load_node st (the (value js)))))"
    using that find_key_None_iff [of "payload_object (load_node st (the (value js)))" key]
    by (simp add: get_element_key_def)
  ultimately show ?thesis
    by (simp add: get_value_at_idx_def get_value_at_key_def is_valid_def format_error_def Let_def)
qed

theorem C9_missing_element_witness:
  "get_element_idx
     [0 \<mapsto> (JObject [(''a'', JArray [JInteger 1, JInteger 2, JInteger 3])] :: int json_value)]
     \<lparr>value = Some (0, [0]), root = Some (0, [])\<rparr> 5 =
     \<lparr>value = None, root = Some (0, [])\<rparr> \<and>
   get_value_at_idx int_casts T_int64
     [0 \<mapsto> (JObject [(''a'', JArray [JInteger 1, JInteger 2, JInteger 3])] :: int json_value)]
     \<lparr>value = Some (0, [0]), root = Some (0, [])\<rparr> 5 (N_int64 42) '''' =
     (False, N_int64 42, ''index out of range 5 at /a'') \<and>
   get_element_key
     [0 \<mapsto> (JObject [(''a'', JArray [JInteger 1, JInteger 2, JInteger 3])] :: int json_value)]
     (get_root 0) ''missing'' = \<lparr>value = None, root = Some (0, [])\<rparr> \<and>
   get_value_at_key int_casts T_int64
     [0 \<mapsto> (JObject [(''a'', JArray [JInteger 1, JInteger 2, JInteger 3])] :: int json_value)]
     (get_root 0) ''missing'' (N_int64 42) '''' =
     (False, N_int64 42, ''missing key missing at /'')"
proof -
  let ?st = "[0 \<mapsto> (JObject [(''a'', JArray [JInteger 1, JInteger 2, JInteger 3])]
                        :: int json_value)]"
  let ?js = "\<lparr>value = Some (0, [0]), root = Some (0, [])\<rparr>"
  have a: "is_array ?st ?js \<and> \<not> 5 < array_size ?st ?js"
    by (simp add: is_array_def array_size_def get_type_def load_node_def deref_def)
  have b: "is_object ?st (get_root 0) \<and>
      ''missing'' \<notin> set (map fst (payload_object (load_node ?st (the (value (get_root 0))))))"
    by (simp add: is_object_def get_type_def load_node_def deref_def get_root_def)
  have p1: "compute_path ?st ?js = ''/a''"
    by (simp add: compute_path_def load_node_def deref_def elem_ptr_def)
  have p2: "compute_path ?st (get_root 0) = ''/''"
    by (simp add: compute_path_def load_node_def deref_def get_root_def)
  have t: "to_string 5 = ''5''" by (simp add: to_string.simps)
  from C9_missing_element [of ?st ?js 5 int_casts T_int64 "N_int64 42" "''''" "''missing''"] a p1 t
  have 1: "get_element_idx ?st ?js 5 = \<lparr>value = None, root = Some (0, [])\<rparr> \<and>
      get_value_at_idx int_casts T_int64 ?st ?js 5 (N_int64 42) '''' =
        (False, N_int64 42, ''index out of range 5 at /a'')"
    by simp
  from C9_missing_element [of ?st "get_root 0" 5 int_casts T_int64 "N_int64 42" "''''" "''missing''"] b p2
  have 2: "get_element_key ?st (get_root 0) ''missing'' = \<lparr>value = None, root = Some (0, [])\<rparr> \<and>
      get_value_at_key int_casts T_int64 ?st (get_root 0) ''missing'' (N_int64 42) '''' =
        (False, N_int64 42, ''missing key missing at /'')"
    by (simp add: get_root_def)
  from 1 2 show ?thesis by simp
qed

subsection \<open>C10: size and empty on a view without a sized target\<close>

text \<open>
  Claim C10: for every view whose kind (as \<^verbatim>\<open>get_type\<close> reports it, so null for an
  invalid view) is none of array, object, string, binary, the view-level \<^verbatim>\<open>size\<close>
  returns 1 and the view-level \<^verbatim>\<open>empty\<close> returns true.
\<close>

theorem C10_size_of_unsized_view:
  assumes "get_type st js \<notin> {array, object, string_k, binary}"
  shows "json_size st js = 1 \<and> json_empty st js"
  using assms by (simp add: json_size_def json_empty_def is_kind_defs)

theorem C10_size_of_unsized_view_witness:
  "get_type (Map.empty :: int json_store) \<lparr>value = None, root = None\<rparr>
     \<notin> {array, object, string_k, binary} \<and>
   json_size (Map.empty :: int json_store) \<lparr>value = None, root = None\<rparr> = 1 \<and>
   json_empty (Map.empty :: int json_store) \<lparr>value = None, root = None\<rparr> \<and>
   get_type [0 \<mapsto> JInteger 7 :: int json_value] (get_root 0)
     \<notin> {array, object, string_k, binary} \<and>
   json_size [0 \<mapsto> JInteger 7 :: int json_value] (get_root 0) = 1 \<and>
   json_empty [0 \<mapsto> JInteger 7 :: int json_value] (get_root 0)"
proof -
  have a: "get_type (Map.empty :: int json_store) \<lparr>value = None, root = None\<rparr>
     \<notin> {array, object, string_k, binary}"
    by (simp add: get_type_def)
  have b: "get_type [0 \<mapsto> JInteger 7 :: int json_value] (get_root 0)
     \<notin> {array, object, string_k, binary}"
    by (simp add: get_type_def get_root_def load_node_def deref_def)
  from C10_size_of_unsized_view [OF a] C10_size_of_unsized_view [OF b] a b
  show ?thesis by blast
qed

end
